theory Spec2Isabelle
  imports Main "HOL-Library.Word"
begin

unbundle bit_operations_syntax


section \<open>Data model of the mail index (mail-index.c)\<close>

type_synonym uint = "32 word"

text \<open>
  Modelled from the spec: the flag bits of a message (\<open>MailFlags\<close>) and of the index
  header are declared in headers that are not among the sources; the specification
  names the bitsets \<open>{SEEN, DELETED, \<dots>}\<close> and \<open>REBUILD, FSCK, COMPRESS, \<dots>\<close>.  Each
  flag is a distinct single bit.
\<close>

definition MAIL_DELETED :: uint where "MAIL_DELETED = 4"
definition MAIL_SEEN :: uint where "MAIL_SEEN = 8"

definition MAIL_INDEX_FLAG_REBUILD :: uint where "MAIL_INDEX_FLAG_REBUILD = 1"
definition MAIL_INDEX_FLAG_FSCK :: uint where "MAIL_INDEX_FLAG_FSCK = 2"
definition MAIL_INDEX_FLAG_CACHE_FIELDS :: uint where "MAIL_INDEX_FLAG_CACHE_FIELDS = 4"
definition MAIL_INDEX_FLAG_COMPRESS :: uint where "MAIL_INDEX_FLAG_COMPRESS = 8"

text \<open>
  Modelled from the spec: the structures \<open>MailIndexHeader\<close> and \<open>MailIndexRecord\<close> are
  declared in \<open>mail-index.h\<close>, which is not among the sources.  The fields are those the
  code reads and writes; counters and UIDs are \<open>unsigned int\<close>, the hole position is a
  file offset.
\<close>

record MailIndexHeader =
  indexid :: uint
  flags :: uint
  cache_fields :: uint
  next_uid :: uint
  messages_count :: uint
  seen_messages_count :: uint
  deleted_messages_count :: uint
  first_unseen_uid_lowwater :: uint
  first_deleted_uid_lowwater :: uint
  first_hole_position :: nat
  first_hole_records :: uint
  last_nonrecent_uid :: uint

record MailIndexRecord =
  uid :: uint
  msg_flags :: uint
  cached_fields :: uint
  data_size :: uint

text \<open>
  Modelled from the spec: \<open>sizeof(MailIndexHeader)\<close> and \<open>sizeof(MailIndexRecord)\<close>
  follow from the same declarations; the file is a fixed-size header at offset 0 followed
  by a packed array of fixed-size records.  The proofs use of the two sizes only that the
  record size is positive.
\<close>

definition sizeof_MailIndexHeader :: nat where "sizeof_MailIndexHeader = 64"
definition sizeof_MailIndexRecord :: nat where "sizeof_MailIndexRecord = 24"

datatype MailLockType = MAIL_LOCK_UNLOCK | MAIL_LOCK_SHARED | MAIL_LOCK_EXCLUSIVE

section \<open>Flag-delta bookkeeping\<close>

text \<open>
  \<open>index_mark_flag_changes\<close>: an if / else-if chain over the header counters; the
  record contributes its uid only.  The counters are \<open>unsigned int\<close>, so \<open>++\<close> and
  \<open>--\<close> wrap.
\<close>

definition index_mark_flag_changes ::
  "MailIndexHeader \<Rightarrow> uint \<Rightarrow> uint \<Rightarrow> uint \<Rightarrow> MailIndexHeader" where
  "index_mark_flag_changes hdr rec_uid old_flags new_flags =
    (if old_flags AND MAIL_SEEN = 0 \<and> new_flags AND MAIL_SEEN \<noteq> 0 then
       hdr\<lparr>seen_messages_count := seen_messages_count hdr + 1\<rparr>
     else if old_flags AND MAIL_SEEN \<noteq> 0 \<and> new_flags AND MAIL_SEEN = 0 then
       (let hdr1 =
          (if seen_messages_count hdr = messages_count hdr then
             hdr\<lparr>first_unseen_uid_lowwater := rec_uid\<rparr>
           else if rec_uid < first_unseen_uid_lowwater hdr then
             hdr\<lparr>first_unseen_uid_lowwater := rec_uid\<rparr>
           else hdr)
        in hdr1\<lparr>seen_messages_count := seen_messages_count hdr1 - 1\<rparr>)
     else if old_flags AND MAIL_DELETED = 0 \<and> new_flags AND MAIL_DELETED \<noteq> 0 then
       (let hdr1 = hdr\<lparr>deleted_messages_count := deleted_messages_count hdr + 1\<rparr>
        in if deleted_messages_count hdr1 = 1 then
             hdr1\<lparr>first_deleted_uid_lowwater := rec_uid\<rparr>
           else if rec_uid < first_deleted_uid_lowwater hdr1 then
             hdr1\<lparr>first_deleted_uid_lowwater := rec_uid\<rparr>
           else hdr1)
     else if old_flags AND MAIL_DELETED \<noteq> 0 \<and> new_flags AND MAIL_DELETED = 0 then
       hdr\<lparr>deleted_messages_count := deleted_messages_count hdr - 1\<rparr>
     else hdr)"

text \<open>The four transitions, as predicates on the old and the new flag set.\<close>

definition unseen_to_seen :: "uint \<Rightarrow> uint \<Rightarrow> bool" where
  "unseen_to_seen old new \<longleftrightarrow> old AND MAIL_SEEN = 0 \<and> new AND MAIL_SEEN \<noteq> 0"

definition seen_to_unseen :: "uint \<Rightarrow> uint \<Rightarrow> bool" where
  "seen_to_unseen old new \<longleftrightarrow> old AND MAIL_SEEN \<noteq> 0 \<and> new AND MAIL_SEEN = 0"

definition undeleted_to_deleted :: "uint \<Rightarrow> uint \<Rightarrow> bool" where
  "undeleted_to_deleted old new \<longleftrightarrow> old AND MAIL_DELETED = 0 \<and> new AND MAIL_DELETED \<noteq> 0"

definition deleted_to_undeleted :: "uint \<Rightarrow> uint \<Rightarrow> bool" where
  "deleted_to_undeleted old new \<longleftrightarrow> old AND MAIL_DELETED \<noteq> 0 \<and> new AND MAIL_DELETED = 0"

section \<open>The index handle, its file and its environment\<close>

text \<open>
  What ends a call without a return value: a failed \<open>i_assert\<close>, an access through a
  pointer that is NULL or no longer mapped, and (for the recursive lock routine and the
  retry loop around \<open>fcntl\<close>) running out of the steps granted to the call.
\<close>

datatype error = AssertionFailed | Fault | OutOfFuel

text \<open>\<open>index->header\<close>: NULL, pointing into an unmapped region, or the mapped header.\<close>

datatype header_ptr = HdrNull | HdrStale | HdrMapped

text \<open>The outcome of one system call (or one call into a sibling module).\<close>

datatype sysres = Ok | Err | Eintr

text \<open>An entry of the modification log.\<close>

datatype modlog_entry =
    LogExpunge uint uint bool
  | LogFlags uint uint bool

text \<open>
  One open handle together with the file it has open.  \<open>header\<close>, \<open>records\<close> and
  \<open>file_length\<close> are the file: the header and the records are written through the
  shared mapping, \<open>records\<close> holds the whole records that follow the header, and the
  stray bytes of the file beyond them are counted by \<open>file_length\<close> only.  \<open>hash\<close>
  is the UID hash (offset 0 for no entry), \<open>modifylog\<close> the journal,
  \<open>data_deleted_space\<close> and \<open>data_resets\<close> stand for the data store.  \<open>clock\<close>
  counts the system calls made so far: the environment answers the n-th call.
\<close>

record MailIndex =
  header :: MailIndexHeader
  records :: "MailIndexRecord list"
  file_length :: nat
  mmap_base :: bool
  mmap_length :: nat
  hdr_ptr :: header_ptr
  dirty_mmap :: bool
  lock_type :: MailLockType
  handle_indexid :: uint
  set_flags :: uint
  set_cache_fields :: uint
  updating :: bool
  inconsistent :: bool
  has_error :: bool
  last_lookup :: "nat option"
  last_lookup_seq :: uint
  hash :: "uint \<Rightarrow> nat"
  has_hash :: bool
  modifylog :: "modlog_entry list"
  data_deleted_space :: nat
  data_resets :: nat
  clock :: nat

text \<open>
  The environment of a call: \<open>sys n\<close> is the outcome of the n-th system call, and the
  virtual methods \<open>index->sync\<close> and \<open>index->rebuild\<close> together with
  \<open>mail_hash_rebuild\<close>, none of which is in the sources, are parameters.  Two more
  parameters stand for what the model does not keep of the file's bytes:
  \<open>written n\<close> is the number of bytes a \<open>write_full\<close> has put into the file when
  it fails at call n, and \<open>stray_record i\<close> is what the i-th record slot of the file
  reads as when its bytes were not written as one record.
\<close>

record env =
  sys :: "nat \<Rightarrow> sysres"
  written :: "nat \<Rightarrow> nat"
  stray_record :: "nat \<Rightarrow> MailIndexRecord"
  sync_hook :: "MailIndex \<Rightarrow> bool \<times> MailIndex"
  rebuild_hook :: "MailIndex \<Rightarrow> bool \<times> MailIndex"
  hash_rebuild_hook :: "MailIndex \<Rightarrow> bool \<times> MailIndex"

text \<open>
  One system call: its outcome, and the clock advanced.
\<close>

definition syscall :: "env \<Rightarrow> MailIndex \<Rightarrow> bool \<times> MailIndex" where
  "syscall e idx = (sys e (clock idx) = Ok, idx\<lparr>clock := clock idx + 1\<rparr>)"

definition index_set_error :: "MailIndex \<Rightarrow> MailIndex" where
  "index_set_error idx = idx\<lparr>has_error := True\<rparr>"

text \<open>
  Modelled from the spec: the macro \<open>INDEX_MARK_CORRUPTED\<close> is not among the sources;
  corruption "sets REBUILD so the next open fixes it".  The flag goes to the pending
  \<open>set_flags\<close> of the handle, which the release of the exclusive lock folds into the
  header.
\<close>

definition INDEX_MARK_CORRUPTED :: "MailIndex \<Rightarrow> MailIndex" where
  "INDEX_MARK_CORRUPTED idx = idx\<lparr>set_flags := set_flags idx OR MAIL_INDEX_FLAG_REBUILD\<rparr>"

text \<open>\<open>munmap\<close> of the current mapping: a header pointer into it goes stale.\<close>

definition munmap_base :: "MailIndex \<Rightarrow> MailIndex" where
  "munmap_base idx =
     idx\<lparr>hdr_ptr := (if hdr_ptr idx = HdrMapped then HdrStale else hdr_ptr idx)\<rparr>"

text \<open>\<open>ftruncate(fd, n)\<close>: on success the file has length n and loses the records beyond.\<close>

definition ftruncate :: "env \<Rightarrow> MailIndex \<Rightarrow> nat \<Rightarrow> bool \<times> MailIndex" where
  "ftruncate e idx n =
     (case syscall e idx of
        (ok, idx1) \<Rightarrow>
          if ok then
            (True, idx1\<lparr>file_length := n,
                        records := take ((n - sizeof_MailIndexHeader) div sizeof_MailIndexRecord)
                                        (records idx1)\<rparr>)
          else (False, idx1))"

section \<open>mmap_update\<close>

definition mmap_update :: "env \<Rightarrow> MailIndex \<Rightarrow> bool \<times> MailIndex" where
  "mmap_update e idx =
    (if \<not> dirty_mmap idx then
       (True, idx\<lparr>hdr_ptr := (if mmap_base idx then HdrMapped else HdrNull)\<rparr>)
     else
       let idx1 = (if mmap_base idx then munmap_base idx else idx) in
       case syscall e idx1 of
         (mapped, idx2) \<Rightarrow>
           if \<not> mapped then
             (False, index_set_error (idx2\<lparr>mmap_base := False\<rparr>))
           else
             let idx3 = idx2\<lparr>mmap_base := True, mmap_length := file_length idx2\<rparr> in
             if mmap_length idx3 < sizeof_MailIndexHeader then
               (False, index_set_error (INDEX_MARK_CORRUPTED idx3))
             else
               let extra = (mmap_length idx3 - sizeof_MailIndexHeader) mod sizeof_MailIndexRecord;
                   idx4 = (if extra \<noteq> 0 then
                             snd (ftruncate e (idx3\<lparr>mmap_length := mmap_length idx3 - extra\<rparr>)
                                    (mmap_length idx3 - extra))
                           else idx3)
               in (True, idx4\<lparr>hdr_ptr := HdrMapped, dirty_mmap := False\<rparr>))"

section \<open>mail_index_append\<close>

text \<open>
  \<open>write_full\<close> of one record at the end of the file.  It puts the whole record there
  or, when it fails, fewer bytes than a record (none, possibly).  A whole record written
  right behind the last whole record becomes the next element of \<open>records\<close>.  In every
  other case the bytes written join the stray bytes at the end of the file, and each
  record slot they complete reads as a mixture of stray bytes and of bytes of the record
  written, which the environment determines.
\<close>

definition write_record :: "env \<Rightarrow> MailIndex \<Rightarrow> MailIndexRecord \<Rightarrow> bool \<times> MailIndex" where
  "write_record e idx r =
     (case syscall e idx of
        (ok, idx1) \<Rightarrow>
          let n = (if ok then sizeof_MailIndexRecord
                   else written e (clock idx) mod sizeof_MailIndexRecord);
              len = file_length idx1 + n;
              slots = (len - sizeof_MailIndexHeader) div sizeof_MailIndexRecord
          in (ok, idx1\<lparr>file_length := len,
                       records := (if ok \<and> file_length idx1 =
                                         sizeof_MailIndexHeader +
                                         length (records idx1) * sizeof_MailIndexRecord
                                   then records idx1 @ [r]
                                   else records idx1 @
                                        map (stray_record e) [length (records idx1) ..< slots])\<rparr>))"

text \<open>
  Modelled from the spec: the UID hash is a sibling module; \<open>update(uid, offset)\<close>
  sets the offset of a UID, offset 0 standing for no entry.
\<close>

definition mail_hash_update :: "MailIndex \<Rightarrow> uint \<Rightarrow> nat \<Rightarrow> MailIndex" where
  "mail_hash_update idx u pos = idx\<lparr>hash := (hash idx)(u := pos)\<rparr>"

text \<open>
  The result of an append: the return value, the caller's record as the call leaves it,
  the offset in the mapping the caller's pointer is re-resolved to (on success), and the
  handle.
\<close>

definition mail_index_append ::
  "env \<Rightarrow> MailIndex \<Rightarrow> MailIndexRecord \<Rightarrow>
     error + (bool \<times> MailIndexRecord \<times> nat option \<times> MailIndex)" where
  "mail_index_append e idx r =
    (if lock_type idx \<noteq> MAIL_LOCK_EXCLUSIVE then Inl AssertionFailed
     else if hdr_ptr idx \<noteq> HdrMapped then Inl Fault
     else
       let r1 = r\<lparr>uid := next_uid (header idx)\<rparr>;
           idx1 = idx\<lparr>header := (header idx)\<lparr>next_uid := next_uid (header idx) + 1\<rparr>\<rparr>
       in case syscall e idx1 of
         (seek_ok, idx2) \<Rightarrow>
           if \<not> seek_ok then Inr (False, r1, None, index_set_error idx2)
           else
             let pos = file_length idx2 in
             case write_record e idx2 r1 of
               (write_ok, idx3) \<Rightarrow>
                 if \<not> write_ok then Inr (False, r1, None, index_set_error idx3)
                 else
                   let idx4 = idx3\<lparr>header :=
                                (header idx3)\<lparr>messages_count := messages_count (header idx3) + 1\<rparr>\<rparr>;
                       idx5 = idx4\<lparr>header :=
                                index_mark_flag_changes (header idx4) (uid r1) 0 (msg_flags r1)\<rparr>;
                       idx6 = (if has_hash idx5 then mail_hash_update idx5 (uid r1) pos else idx5);
                       idx7 = idx6\<lparr>dirty_mmap := True\<rparr>
                   in case mmap_update e idx7 of
                        (map_ok, idx8) \<Rightarrow>
                          if \<not> map_ok then Inr (False, r1, None, idx8)
                          else Inr (True, r1, Some pos, idx8))"

section \<open>mail_index_expunge\<close>

text \<open>
  Modelled from the spec: the macro \<open>INDEX_FILE_POSITION\<close> is not among the sources; it
  gives the byte offset of a record in the file.  A record pointer is the index \<open>i\<close> of
  the record in the array.
\<close>

definition INDEX_FILE_POSITION :: "nat \<Rightarrow> nat" where
  "INDEX_FILE_POSITION i = sizeof_MailIndexHeader + i * sizeof_MailIndexRecord"

text \<open>
  The loop of \<open>update_first_hole_records\<close>: \<open>rs\<close> are the records from offset \<open>pos\<close>
  on, \<open>end_pos\<close> is the end of the mapping, \<open>n\<close> the \<open>first_hole_records\<close> so far.
\<close>

fun grow_hole :: "MailIndexRecord list \<Rightarrow> nat \<Rightarrow> nat \<Rightarrow> uint \<Rightarrow> error + uint" where
  "grow_hole [] pos end_pos n = (if pos = end_pos then Inr n else Inl Fault)"
| "grow_hole (r # rs) pos end_pos n =
     (if pos \<noteq> end_pos \<and> uid r = 0
      then grow_hole rs (pos + sizeof_MailIndexRecord) end_pos (n + 1)
      else Inr n)"

text \<open>The records from byte offset \<open>pos\<close> on; none when \<open>pos\<close> is no record boundary.\<close>

definition records_from :: "MailIndex \<Rightarrow> nat \<Rightarrow> MailIndexRecord list option" where
  "records_from idx pos =
     (if sizeof_MailIndexHeader \<le> pos \<and>
         (pos - sizeof_MailIndexHeader) mod sizeof_MailIndexRecord = 0
      then Some (drop ((pos - sizeof_MailIndexHeader) div sizeof_MailIndexRecord) (records idx))
      else None)"

definition update_first_hole_records :: "MailIndex \<Rightarrow> error + MailIndex" where
  "update_first_hole_records idx =
     (if hdr_ptr idx \<noteq> HdrMapped then Inl Fault
      else
        let pos = first_hole_position (header idx) +
                  unat (first_hole_records (header idx)) * sizeof_MailIndexRecord
        in if pos = mmap_length idx then Inr idx
           else case records_from idx pos of
                  None \<Rightarrow> Inl Fault
                | Some rs \<Rightarrow>
                    (case grow_hole rs pos (mmap_length idx) (first_hole_records (header idx)) of
                       Inl err \<Rightarrow> Inl err
                     | Inr n \<Rightarrow> Inr (idx\<lparr>header := (header idx)\<lparr>first_hole_records := n\<rparr>\<rparr>)))"

text \<open>
  The block "update first hole" of \<open>mail_index_expunge\<close>, for the record at offset
  \<open>pos\<close> whose uid has just been cleared.
\<close>

definition expunge_update_first_hole :: "MailIndex \<Rightarrow> nat \<Rightarrow> error + MailIndex" where
  "expunge_update_first_hole idx pos =
     (let hdr = header idx in
      if first_hole_position hdr = 0 then
        Inr (idx\<lparr>header := hdr\<lparr>first_hole_position := pos, first_hole_records := 1\<rparr>\<rparr>)
      else if sizeof_MailIndexRecord \<le> first_hole_position hdr \<and>
              first_hole_position hdr - sizeof_MailIndexRecord = pos then
        Inr (idx\<lparr>header := hdr\<lparr>first_hole_position :=
                                   first_hole_position hdr - sizeof_MailIndexRecord,
                                 first_hole_records := first_hole_records hdr + 1\<rparr>\<rparr>)
      else if first_hole_position hdr +
              unat (first_hole_records hdr) * sizeof_MailIndexRecord = pos then
        update_first_hole_records
          (idx\<lparr>header := hdr\<lparr>first_hole_records := first_hole_records hdr + 1\<rparr>\<rparr>)
      else
        let idx1 = idx\<lparr>set_flags := set_flags idx OR MAIL_INDEX_FLAG_COMPRESS\<rparr> in
        if pos < first_hole_position hdr then
          Inr (idx1\<lparr>header := hdr\<lparr>first_hole_position := pos, first_hole_records := 1\<rparr>\<rparr>)
        else Inr idx1)"

text \<open>
  Modelled from the spec: \<open>mail_index_data_reset\<close> and
  \<open>mail_index_data_add_deleted_space\<close> belong to the data store, which is not among the
  sources; it can "track deleted byte count" and "reset".
\<close>

definition mail_index_data_reset :: "MailIndex \<Rightarrow> MailIndex" where
  "mail_index_data_reset idx = idx\<lparr>data_deleted_space := 0, data_resets := data_resets idx + 1\<rparr>"

definition mail_index_data_add_deleted_space :: "MailIndex \<Rightarrow> uint \<Rightarrow> MailIndex" where
  "mail_index_data_add_deleted_space idx n =
     idx\<lparr>data_deleted_space := data_deleted_space idx + unat n\<rparr>"

text \<open>
  \<open>mail_index_truncate\<close>: the hole descriptor is cleared, the file cut to the header,
  and, unless that has failed, the data store reset.
\<close>

definition mail_index_truncate :: "env \<Rightarrow> MailIndex \<Rightarrow> bool \<times> MailIndex" where
  "mail_index_truncate e idx =
     (let idx1 = idx\<lparr>header := (header idx)\<lparr>first_hole_position := 0, first_hole_records := 0\<rparr>\<rparr>
      in case ftruncate e idx1 sizeof_MailIndexHeader of
           (ok, idx2) \<Rightarrow>
             if \<not> ok then (False, idx2)
             else (True, mail_index_data_reset idx2))"

text \<open>
  Modelled from the spec: \<open>mail_modifylog_add_expunge\<close> appends
  \<open>expunge(seq, uid, external?)\<close> to the modification log, and may fail.
\<close>

definition mail_modifylog_add_expunge ::
  "env \<Rightarrow> MailIndex \<Rightarrow> uint \<Rightarrow> uint \<Rightarrow> bool \<Rightarrow> bool \<times> MailIndex" where
  "mail_modifylog_add_expunge e idx seq u external_change =
     (case syscall e idx of
        (ok, idx1) \<Rightarrow>
          if ok then (True, idx1\<lparr>modifylog := modifylog idx1 @ [LogExpunge seq u external_change]\<rparr>)
          else (False, idx1))"

text \<open>
  The handle once the hash entry is cleared, the record at index \<open>i\<close> is a tombstone and
  the lookup cache is adjusted.
\<close>

definition tombstone :: "MailIndex \<Rightarrow> nat \<Rightarrow> uint \<Rightarrow> MailIndex" where
  "tombstone idx i seq =
     (let idx1 = mail_hash_update idx (uid (records idx ! i)) 0;
          idx2 = idx1\<lparr>records := (records idx1)[i := (records idx1 ! i)\<lparr>uid := 0\<rparr>]\<rparr>
      in if seq \<noteq> 0 then
           (if seq = last_lookup_seq idx2 then idx2\<lparr>last_lookup := None\<rparr>
            else if seq < last_lookup_seq idx2 then
              idx2\<lparr>last_lookup_seq := last_lookup_seq idx2 - 1\<rparr>
            else idx2)
         else idx2)"

text \<open>
  The block "update message counts" of \<open>mail_index_expunge\<close>, for the record at index
  \<open>i\<close>; the result of \<open>mail_index_truncate\<close> is discarded.
\<close>

definition expunge_update_counts :: "env \<Rightarrow> MailIndex \<Rightarrow> nat \<Rightarrow> MailIndex" where
  "expunge_update_counts e idx i =
     (let idx1 = idx\<lparr>header :=
                   (header idx)\<lparr>messages_count := messages_count (header idx) - 1\<rparr>\<rparr>;
          r = records idx1 ! i;
          idx2 = idx1\<lparr>header := index_mark_flag_changes (header idx1) (uid r) (msg_flags r) 0\<rparr>
      in if messages_count (header idx2) = 0
         then snd (mail_index_truncate e idx2)
         else mail_index_data_add_deleted_space idx2 (data_size r))"

text \<open>The handle after the entry in the modification log, which is made when \<open>seq \<noteq> 0\<close>.\<close>

definition expunge_logged :: "env \<Rightarrow> MailIndex \<Rightarrow> nat \<Rightarrow> uint \<Rightarrow> bool \<Rightarrow> bool \<times> MailIndex" where
  "expunge_logged e idx i seq external_change =
     (if seq \<noteq> 0
      then mail_modifylog_add_expunge e idx seq (uid (records idx ! i)) external_change
      else (True, idx))"

text \<open>
  The result is the return value and the handle; \<open>seq = 0\<close> stands for an expunge that
  is not entered into the modification log.
\<close>

definition mail_index_expunge ::
  "env \<Rightarrow> MailIndex \<Rightarrow> nat \<Rightarrow> uint \<Rightarrow> bool \<Rightarrow> error + (bool \<times> MailIndex)" where
  "mail_index_expunge e idx i seq external_change =
    (if lock_type idx \<noteq> MAIL_LOCK_EXCLUSIVE then Inl AssertionFailed
     else if \<not> i < length (records idx) then Inl Fault
     else if uid (records idx ! i) = 0 then Inl AssertionFailed
     else
       case expunge_logged e idx i seq external_change of
         (logged, idx1) \<Rightarrow>
           if \<not> logged then Inr (False, idx1)
           else if \<not> has_hash idx1 then Inl Fault
           else
             let idx2 = tombstone idx1 i seq in
             if hdr_ptr idx2 \<noteq> HdrMapped then Inl Fault
             else
               case expunge_update_first_hole idx2 (INDEX_FILE_POSITION i) of
                 Inl err \<Rightarrow> Inl err
               | Inr idx3 \<Rightarrow> Inr (True, expunge_update_counts e idx3 i))"

section \<open>mail_index_lookup_uid_range\<close>

text \<open>The last UID the hash is asked for.\<close>

definition last_try_uid :: "uint \<Rightarrow> uint \<Rightarrow> uint" where
  "last_try_uid first_uid last_uid =
     (if last_uid - first_uid < 10 then last_uid else first_uid + 4)"

text \<open>
  The \<open>for\<close> loop over the hash: \<open>Some (Some pos)\<close> for the first hit, \<open>Some None\<close>
  when every UID up to \<open>last_try\<close> misses.  The counter is an \<open>unsigned int\<close>: with
  \<open>last_try = 2^32 - 1\<close> the test \<open>uid <= last_try_uid\<close> never fails, and the loop
  ends only at a hit; \<open>None\<close> is the loop that does not end.
\<close>

partial_function (option) probe_hash :: "(uint \<Rightarrow> nat) \<Rightarrow> uint \<Rightarrow> uint \<Rightarrow> nat option option" where
  "probe_hash h u last_try =
     (if u \<le> last_try then
        (if h u \<noteq> 0 then Some (Some (h u)) else probe_hash h (u + 1) last_try)
      else Some None)"

text \<open>
  The \<open>while (rec < end_rec)\<close> loop: \<open>n\<close> records of the mapping are still ahead, the
  next one at offset \<open>pos\<close>.  Reading where the file holds no record is a fault.
\<close>

fun scan_records ::
  "MailIndexRecord list \<Rightarrow> nat \<Rightarrow> nat \<Rightarrow> uint \<Rightarrow> uint \<Rightarrow> error + nat option" where
  "scan_records rs 0 pos first_uid last_uid = Inr None"
| "scan_records [] (Suc n) pos first_uid last_uid = Inl Fault"
| "scan_records (r # rs) (Suc n) pos first_uid last_uid =
     (if uid r \<noteq> 0 then
        (if last_uid < uid r then Inr None
         else if first_uid \<le> uid r then Inr (Some pos)
         else scan_records rs n (pos + sizeof_MailIndexRecord) first_uid last_uid)
      else scan_records rs n (pos + sizeof_MailIndexRecord) first_uid last_uid)"

text \<open>
  The number of records between the end of the header and \<open>end_rec\<close>, a last partial
  one included.
\<close>

definition mapped_records :: "MailIndex \<Rightarrow> nat" where
  "mapped_records idx =
     (mmap_length idx - sizeof_MailIndexHeader + (sizeof_MailIndexRecord - 1))
       div sizeof_MailIndexRecord"

text \<open>
  The result is the offset of the record in the mapping, or \<open>None\<close> for NULL, with the
  handle as the refresh of the mapping left it.  The outer \<open>option\<close> is \<open>None\<close> when
  the probing loop does not end.
\<close>

definition mail_index_lookup_uid_range ::
  "env \<Rightarrow> MailIndex \<Rightarrow> uint \<Rightarrow> uint \<Rightarrow> (error + (nat option \<times> MailIndex)) option" where
  "mail_index_lookup_uid_range e idx first_uid last_uid =
    (if lock_type idx = MAIL_LOCK_UNLOCK then Some (Inl AssertionFailed)
     else if \<not> (0 < first_uid \<and> 0 < last_uid) then Some (Inl AssertionFailed)
     else if last_uid < first_uid then Some (Inr (None, idx))
     else
       case mmap_update e idx of
         (ok, idx1) \<Rightarrow>
           if \<not> ok then Some (Inr (None, idx1))
           else if \<not> has_hash idx1 then Some (Inl Fault)
           else
             case probe_hash (hash idx1) first_uid (last_try_uid first_uid last_uid) of
               None \<Rightarrow> None
             | Some (Some pos) \<Rightarrow> Some (Inr (Some pos, idx1))
             | Some None \<Rightarrow>
                 if last_try_uid first_uid last_uid = last_uid then Some (Inr (None, idx1))
                 else if \<not> mmap_base idx1 then Some (Inl Fault)
                 else
                   (case scan_records (records idx1) (mapped_records idx1)
                           sizeof_MailIndexHeader first_uid last_uid of
                      Inl err \<Rightarrow> Some (Inl err)
                    | Inr res \<Rightarrow> Some (Inr (res, idx1))))"

section \<open>Syncing\<close>

text \<open>
  \<open>mail_index_sync_file\<close>: the data store, the mapping, the hash, the modification log,
  the time stamp and the file are synced in this order, each by one call that may fail.
\<close>

definition mail_index_sync_file :: "env \<Rightarrow> MailIndex \<Rightarrow> bool \<times> MailIndex" where
  "mail_index_sync_file e idx =
     (case syscall e idx of
        (data_ok, idx1) \<Rightarrow>
          if \<not> data_ok then (False, idx1)
          else
            case (if mmap_base idx1 then syscall e idx1 else (True, idx1)) of
              (msync_ok, idx2) \<Rightarrow>
                if \<not> msync_ok then (False, index_set_error idx2)
                else
                  case syscall e idx2 of
                    (hash_ok, idx3) \<Rightarrow>
                      case syscall e idx3 of
                        (log_ok, idx4) \<Rightarrow>
                          case syscall e idx4 of
                            (utime_ok, idx5) \<Rightarrow>
                              if \<not> utime_ok then (False, index_set_error idx5)
                              else
                                case syscall e idx5 of
                                  (fsync_ok, idx6) \<Rightarrow>
                                    if \<not> fsync_ok then (False, index_set_error idx6)
                                    else (hash_ok \<and> log_ok, idx6))"

text \<open>
  \<open>mail_index_fmsync\<close>: the mapping, then the file.
\<close>

definition mail_index_fmsync :: "env \<Rightarrow> MailIndex \<Rightarrow> error + (bool \<times> MailIndex)" where
  "mail_index_fmsync e idx =
     (if lock_type idx \<noteq> MAIL_LOCK_EXCLUSIVE then Inl AssertionFailed
      else
        case syscall e idx of
          (msync_ok, idx1) \<Rightarrow>
            if \<not> msync_ok then Inr (False, index_set_error idx1)
            else
              case syscall e idx1 of
                (fsync_ok, idx2) \<Rightarrow>
                  if \<not> fsync_ok then Inr (False, index_set_error idx2)
                  else Inr (True, idx2))"

text \<open>
  \<open>mail_index_rebuild_all\<close>: the \<open>rebuild\<close> method of the index, then the rebuild of
  the hash.
\<close>

definition mail_index_rebuild_all :: "env \<Rightarrow> MailIndex \<Rightarrow> bool \<times> MailIndex" where
  "mail_index_rebuild_all e idx =
     (case rebuild_hook e idx of
        (ok, idx1) \<Rightarrow> if \<not> ok then (False, idx1) else hash_rebuild_hook e idx1)"

text \<open>
  \<open>mail_index_update_header_changes\<close>: pending flags are added to the header's, a
  pending nonzero \<open>set_cache_fields\<close> replaces the header's \<open>cache_fields\<close>.
\<close>

definition mail_index_update_header_changes :: "MailIndex \<Rightarrow> error + MailIndex" where
  "mail_index_update_header_changes idx =
     (if lock_type idx \<noteq> MAIL_LOCK_EXCLUSIVE then Inl AssertionFailed
      else if (set_flags idx \<noteq> 0 \<or> set_cache_fields idx \<noteq> 0) \<and> hdr_ptr idx \<noteq> HdrMapped
        then Inl Fault
      else
        let idx1 = (if set_flags idx \<noteq> 0
                    then idx\<lparr>header := (header idx)\<lparr>flags := flags (header idx) OR set_flags idx\<rparr>,
                             set_flags := 0\<rparr>
                    else idx);
            idx2 = (if set_cache_fields idx1 \<noteq> 0
                    then idx1\<lparr>header := (header idx1)\<lparr>cache_fields := set_cache_fields idx1\<rparr>,
                              set_cache_fields := 0\<rparr>
                    else idx1)
        in Inr idx2)"

section \<open>mail_index_set_lock\<close>

text \<open>
  The loop around \<open>fcntl(F_SETLKW)\<close>: it is left when the call succeeds or fails with
  something else than EINTR, and it can take at most \<open>n\<close> rounds here.
\<close>

fun fcntl_setlkw :: "nat \<Rightarrow> env \<Rightarrow> MailIndex \<Rightarrow> error + (bool \<times> MailIndex)" where
  "fcntl_setlkw 0 e idx = Inl OutOfFuel"
| "fcntl_setlkw (Suc n) e idx =
     (case sys e (clock idx) of
        Ok \<Rightarrow> Inr (True, idx\<lparr>clock := clock idx + 1\<rparr>)
      | Err \<Rightarrow> Inr (False, index_set_error (idx\<lparr>clock := clock idx + 1\<rparr>))
      | Eintr \<Rightarrow> fcntl_setlkw n e (idx\<lparr>clock := clock idx + 1\<rparr>))"

text \<open>The block "releasing exclusive lock", entered when the handle holds that lock.\<close>

definition release_exclusive :: "env \<Rightarrow> MailIndex \<Rightarrow> error + MailIndex" where
  "release_exclusive e idx =
     (if hdr_ptr idx \<noteq> HdrMapped then Inl Fault
      else
        case mail_index_update_header_changes
               (idx\<lparr>header := (header idx)\<lparr>flags := flags (header idx) AND
                                                     NOT MAIL_INDEX_FLAG_FSCK\<rparr>\<rparr>) of
          Inl err \<Rightarrow> Inl err
        | Inr idx1 \<Rightarrow> Inr (snd (mail_index_sync_file e idx1)))"

text \<open>
  The end of the function, from the block that puts FSCK on under the exclusive lock.
  \<open>self\<close> is the function itself, for its recursive calls.
\<close>

definition set_lock_finish ::
  "(MailIndex \<Rightarrow> MailLockType \<Rightarrow> error + (bool \<times> MailIndex)) \<Rightarrow> env \<Rightarrow> MailIndex \<Rightarrow>
     MailLockType \<Rightarrow> error + (bool \<times> MailIndex)" where
  "set_lock_finish self e idx l =
     (case (if l = MAIL_LOCK_EXCLUSIVE then
              (if hdr_ptr idx \<noteq> HdrMapped then Inl Fault
               else mail_index_fmsync e
                      (idx\<lparr>header := (header idx)\<lparr>flags := flags (header idx) OR
                                                            MAIL_INDEX_FLAG_FSCK\<rparr>\<rparr>))
            else Inr (True, idx)) of
        Inl err \<Rightarrow> Inl err
      | Inr (synced, idx1) \<Rightarrow>
          if \<not> synced then
            (case self idx1 MAIL_LOCK_UNLOCK of
               Inl err \<Rightarrow> Inl err
             | Inr (ignored, idx2) \<Rightarrow> Inr (False, idx2))
          else if hdr_ptr idx1 = HdrStale \<and> \<not> updating idx1 then Inl Fault
          else if hdr_ptr idx1 = HdrMapped \<and> \<not> updating idx1 \<and>
                  flags (header idx1) AND MAIL_INDEX_FLAG_REBUILD \<noteq> 0 then
            (case (if l = MAIL_LOCK_SHARED then self (idx1\<lparr>updating := True\<rparr>) MAIL_LOCK_UNLOCK
                   else Inr (True, idx1\<lparr>updating := True\<rparr>)) of
               Inl err \<Rightarrow> Inl err
             | Inr (ignored, idx2) \<Rightarrow>
                 (case mail_index_rebuild_all e idx2 of
                    (rebuilt, idx3) \<Rightarrow>
                      if \<not> rebuilt then Inr (False, idx3)
                      else
                        case self idx3 l of
                          Inl err \<Rightarrow> Inl err
                        | Inr (ret, idx4) \<Rightarrow> Inr (ret, idx4\<lparr>updating := False\<rparr>)))
          else Inr (True, if l = MAIL_LOCK_UNLOCK then idx1\<lparr>last_lookup := None\<rparr> else idx1))"

text \<open>
  The middle of the function: the lock is taken or released by \<open>fcntl\<close>, the mapping
  refreshed and the identity of the file compared; on release of a shared lock pending
  header changes are written under a short exclusive lock.
\<close>

definition set_lock_fcntl ::
  "(MailIndex \<Rightarrow> MailLockType \<Rightarrow> error + (bool \<times> MailIndex)) \<Rightarrow> nat \<Rightarrow> env \<Rightarrow> MailIndex \<Rightarrow>
     MailLockType \<Rightarrow> error + (bool \<times> MailIndex)" where
  "set_lock_fcntl self n e idx l =
     (case fcntl_setlkw n e idx of
        Inl err \<Rightarrow> Inl err
      | Inr (locked, idx1) \<Rightarrow>
          if \<not> locked then Inr (False, idx1)
          else
            let idx2 = (if l = MAIL_LOCK_UNLOCK then idx1\<lparr>last_lookup := None\<rparr> else idx1);
                old_lock_type = lock_type idx2;
                idx3 = idx2\<lparr>lock_type := l\<rparr>
            in
              if l \<noteq> MAIL_LOCK_UNLOCK then
                (case mmap_update e idx3 of
                   (mapped, idx4) \<Rightarrow>
                     if \<not> mapped then
                       (case self idx4 MAIL_LOCK_UNLOCK of
                          Inl err \<Rightarrow> Inl err
                        | Inr (ignored, idx5) \<Rightarrow> Inr (False, idx5))
                     else if hdr_ptr idx4 \<noteq> HdrMapped then Inl Fault
                     else if handle_indexid idx4 \<noteq> indexid (header idx4) then
                       Inr (False, (index_set_error idx4)\<lparr>inconsistent := True\<rparr>)
                     else set_lock_finish self e idx4 l)
              else if old_lock_type = MAIL_LOCK_SHARED then
                (if hdr_ptr idx3 \<noteq> HdrMapped then Inl Fault
                 else
                   let old_flags = flags (header idx3);
                       old_cache = cache_fields (header idx3)
                   in
                     if (old_flags OR set_flags idx3) \<noteq> old_flags \<or>
                        (old_cache OR set_cache_fields idx3) \<noteq> old_cache then
                       (case self (idx3\<lparr>updating := True\<rparr>) MAIL_LOCK_EXCLUSIVE of
                          Inl err \<Rightarrow> Inl err
                        | Inr (upgraded, idx4) \<Rightarrow>
                            (case (if upgraded then mail_index_update_header_changes idx4
                                   else Inr idx4) of
                               Inl err \<Rightarrow> Inl err
                             | Inr idx5 \<Rightarrow> self (idx5\<lparr>updating := False\<rparr>) MAIL_LOCK_UNLOCK))
                     else set_lock_finish self e idx3 l)
              else set_lock_finish self e idx3 l)"

text \<open>
  The function from the block "unlock -> lock" on, entered after the exclusive lock, if
  held, has been prepared for release.
\<close>

definition set_lock_acquire ::
  "(MailIndex \<Rightarrow> MailLockType \<Rightarrow> error + (bool \<times> MailIndex)) \<Rightarrow> nat \<Rightarrow> env \<Rightarrow> MailIndex \<Rightarrow>
     MailLockType \<Rightarrow> error + (bool \<times> MailIndex)" where
  "set_lock_acquire self n e idx l =
     (if l \<noteq> MAIL_LOCK_UNLOCK \<and> lock_type idx = MAIL_LOCK_UNLOCK \<and> \<not> updating idx then
        (case self (snd (sync_hook e (idx\<lparr>updating := True\<rparr>))) l of
           Inl err \<Rightarrow> Inl err
         | Inr (ret, idx1) \<Rightarrow> Inr (ret, idx1\<lparr>updating := False\<rparr>))
      else set_lock_fcntl self n e idx l)"

text \<open>
  \<open>mail_index_set_lock\<close>, with the number of nested calls (and of rounds of the
  \<open>fcntl\<close> loop) bounded by the first argument.
\<close>

fun mail_index_set_lock ::
  "nat \<Rightarrow> env \<Rightarrow> MailIndex \<Rightarrow> MailLockType \<Rightarrow> error + (bool \<times> MailIndex)" where
  "mail_index_set_lock 0 e idx l = Inl OutOfFuel"
| "mail_index_set_lock (Suc n) e idx l =
     (if inconsistent idx then Inr (False, idx)
      else if lock_type idx = l then Inr (True, idx)
      else if l = MAIL_LOCK_EXCLUSIVE \<and> lock_type idx = MAIL_LOCK_SHARED then Inl AssertionFailed
      else
        case (if lock_type idx = MAIL_LOCK_EXCLUSIVE then release_exclusive e idx else Inr idx) of
          Inl err \<Rightarrow> Inl err
        | Inr idx1 \<Rightarrow> set_lock_acquire (mail_index_set_lock n e) n e idx1 l)"


section \<open>The operations as the specification words them\<close>

text \<open>
  The four transitions of the flag-delta bookkeeping.
\<close>

datatype transition = UnseenToSeen | SeenToUnseen | UndeletedToDeleted | DeletedToUndeleted

text \<open>The transition chosen for a call: the first in the priority order that is present.\<close>

definition chosen_transition :: "uint \<Rightarrow> uint \<Rightarrow> transition option" where
  "chosen_transition old new =
     (if unseen_to_seen old new then Some UnseenToSeen
      else if seen_to_unseen old new then Some SeenToUnseen
      else if undeleted_to_deleted old new then Some UndeletedToDeleted
      else if deleted_to_undeleted old new then Some DeletedToUndeleted
      else None)"

fun apply_transition :: "MailIndexHeader \<Rightarrow> uint \<Rightarrow> transition \<Rightarrow> MailIndexHeader" where
  "apply_transition hdr u UnseenToSeen =
     hdr\<lparr>seen_messages_count := seen_messages_count hdr + 1\<rparr>"
| "apply_transition hdr u SeenToUnseen =
     hdr\<lparr>first_unseen_uid_lowwater :=
           (if seen_messages_count hdr = messages_count hdr \<or> u < first_unseen_uid_lowwater hdr
            then u else first_unseen_uid_lowwater hdr),
         seen_messages_count := seen_messages_count hdr - 1\<rparr>"
| "apply_transition hdr u UndeletedToDeleted =
     hdr\<lparr>deleted_messages_count := deleted_messages_count hdr + 1,
         first_deleted_uid_lowwater :=
           (if deleted_messages_count hdr + 1 = 1 \<or> u < first_deleted_uid_lowwater hdr
            then u else first_deleted_uid_lowwater hdr)\<rparr>"
| "apply_transition hdr u DeletedToUndeleted =
     hdr\<lparr>deleted_messages_count := deleted_messages_count hdr - 1\<rparr>"

text \<open>The UIDs from \<open>a\<close> up to \<open>b\<close>, in ascending order.\<close>

definition uid_range :: "uint \<Rightarrow> uint \<Rightarrow> uint list" where
  "uid_range a b = map word_of_nat [unat a ..< Suc (unat b)]"

text \<open>The offset the hash gives for the first of the UIDs \<open>us\<close> that it knows.\<close>

definition first_hit :: "(uint \<Rightarrow> nat) \<Rightarrow> uint list \<Rightarrow> nat option" where
  "first_hit h us = map_option h (find (\<lambda>u. h u \<noteq> 0) us)"

text \<open>
  The offset of the first live record, in array order from offset \<open>pos\<close>, whose uid
  satisfies \<open>P\<close>.
\<close>

fun first_live :: "(uint \<Rightarrow> bool) \<Rightarrow> MailIndexRecord list \<Rightarrow> nat \<Rightarrow> (nat \<times> MailIndexRecord) option" where
  "first_live P [] pos = None"
| "first_live P (r # rs) pos =
     (if uid r \<noteq> 0 \<and> P (uid r) then Some (pos, r)
      else first_live P rs (pos + sizeof_MailIndexRecord))"

text \<open>
  The linear scan: it stops at the first live record whose uid is not below
  \<open>first_uid\<close>, and returns it unless its uid is above \<open>last_uid\<close>.
\<close>

definition linear_scan :: "MailIndexRecord list \<Rightarrow> uint \<Rightarrow> uint \<Rightarrow> nat option" where
  "linear_scan rs first_uid last_uid =
     (case first_live (\<lambda>u. first_uid \<le> u) rs sizeof_MailIndexHeader of
        None \<Rightarrow> None
      | Some (pos, r) \<Rightarrow> if uid r \<le> last_uid then Some pos else None)"

text \<open>
  The lookup in the words of its specification: probe the hash for \<open>first_uid\<close> through
  \<open>min(last_uid, first_uid+4)\<close>, the sum being that of the numbers; after a miss on all
  of them scan for the first live record with a uid in the range; an empty range gives
  nothing.
\<close>

definition spec_lookup_uid_range ::
  "(uint \<Rightarrow> nat) \<Rightarrow> MailIndexRecord list \<Rightarrow> uint \<Rightarrow> uint \<Rightarrow> nat option" where
  "spec_lookup_uid_range h rs first_uid last_uid =
     (if last_uid < first_uid then None
      else case first_hit h
                  (uid_range first_uid
                     (word_of_nat (min (unat last_uid) (unat first_uid + 4)))) of
             Some pos \<Rightarrow> Some pos
           | None \<Rightarrow>
               map_option fst
                 (first_live (\<lambda>u. first_uid \<le> u \<and> u \<le> last_uid) rs sizeof_MailIndexHeader))"

text \<open>The number of tombstones that directly follow the record at index \<open>i\<close>.\<close>

definition tombstones_after :: "MailIndexRecord list \<Rightarrow> nat \<Rightarrow> nat" where
  "tombstones_after rs i = length (takeWhile (\<lambda>r. uid r = 0) (drop (Suc i) rs))"

text \<open>
  The descriptor after the record at index \<open>i\<close> has become a tombstone: position,
  number of records, and whether COMPRESS is asked for.  No hole: the record is the hole.
  Directly before the hole: the hole starts one record earlier.  Directly after it: the
  hole grows by the record and by the tombstones that follow.  Elsewhere: a second hole,
  COMPRESS, and the earlier of the two positions is kept.
\<close>

definition spec_first_hole :: "MailIndexHeader \<Rightarrow> MailIndexRecord list \<Rightarrow> nat \<Rightarrow> nat \<times> uint \<times> bool" where
  "spec_first_hole hdr rs i =
     (let pos = INDEX_FILE_POSITION i;
          hole = first_hole_position hdr;
          n = first_hole_records hdr
      in if hole = 0 then (pos, 1, False)
         else if pos + sizeof_MailIndexRecord = hole then (pos, n + 1, False)
         else if hole + unat n * sizeof_MailIndexRecord = pos
           then (hole, n + 1 + word_of_nat (tombstones_after rs i), False)
         else (min hole pos, if pos < hole then 1 else n, True))"

text \<open>The handle with the descriptor \<open>(p, n, c)\<close> written into it.\<close>

definition with_first_hole :: "MailIndex \<Rightarrow> nat \<times> uint \<times> bool \<Rightarrow> MailIndex" where
  "with_first_hole idx d =
     (case d of
        (p, n, c) \<Rightarrow>
          idx\<lparr>header := (header idx)\<lparr>first_hole_position := p, first_hole_records := n\<rparr>,
              set_flags := (if c then set_flags idx OR MAIL_INDEX_FLAG_COMPRESS
                            else set_flags idx)\<rparr>)"

section \<open>States inside the operations\<close>

text \<open>
  The state \<open>mail_index_append\<close> has reached when seek and write have succeeded, just
  before it refreshes the mapping.
\<close>

definition appended :: "env \<Rightarrow> MailIndex \<Rightarrow> MailIndexRecord \<Rightarrow> MailIndex" where
  "appended e idx r =
     idx\<lparr>clock := clock idx + 2,
         file_length := file_length idx + sizeof_MailIndexRecord,
         records := (if file_length idx =
                          sizeof_MailIndexHeader + length (records idx) * sizeof_MailIndexRecord
                     then records idx @ [r\<lparr>uid := next_uid (header idx)\<rparr>]
                     else records idx @
                          map (stray_record e)
                            [length (records idx) ..<
                             (file_length idx + sizeof_MailIndexRecord - sizeof_MailIndexHeader)
                               div sizeof_MailIndexRecord]),
         header := index_mark_flag_changes
             ((header idx)\<lparr>next_uid := next_uid (header idx) + 1,
                           messages_count := messages_count (header idx) + 1\<rparr>)
             (next_uid (header idx)) 0 (msg_flags r),
         hash := (if has_hash idx then (hash idx)(next_uid (header idx) := file_length idx)
                  else hash idx),
         dirty_mmap := True\<rparr>"

text \<open>
  The handle with which a lock acquisition from the unlocked state goes on: either the
  handle itself, when a call higher up has set \<open>updating\<close>, or what the \<open>sync\<close>
  method has made of it.
\<close>

definition sync_entered :: "env \<Rightarrow> MailIndex \<Rightarrow> MailIndex" where
  "sync_entered e idx =
     (if updating idx then idx else snd (sync_hook e (idx\<lparr>updating := True\<rparr>)))"

text \<open>
  The refresh of the mapping in a lock acquisition from the unlocked state in which
  \<open>fcntl\<close> grants the lock \<open>l\<close> at its first call.
\<close>

definition lock_mapped :: "env \<Rightarrow> MailIndex \<Rightarrow> MailLockType \<Rightarrow> bool \<times> MailIndex" where
  "lock_mapped e idx l =
     mmap_update e ((sync_entered e idx)\<lparr>clock := clock (sync_entered e idx) + 1, lock_type := l\<rparr>)"





section \<open>Concrete handles and environments\<close>

text \<open>
  \<open>mail_index_init_header\<close>: the header of a newly created index, with the creation time
  as \<open>indexid\<close>.  (\<open>FIELD_TYPE_LOCATION\<close> is declared outside the sources; it is one
  bit.)
\<close>

definition FIELD_TYPE_LOCATION :: uint where "FIELD_TYPE_LOCATION = 1"

definition mail_index_init_header :: "uint \<Rightarrow> MailIndexHeader" where
  "mail_index_init_header ioloop_time =
     \<lparr>indexid = ioloop_time, flags = MAIL_INDEX_FLAG_REBUILD,
      cache_fields = FIELD_TYPE_LOCATION, next_uid = 1, messages_count = 0,
      seen_messages_count = 0, deleted_messages_count = 0, first_unseen_uid_lowwater = 0,
      first_deleted_uid_lowwater = 0, first_hole_position = 0, first_hole_records = 0,
      last_nonrecent_uid = 0\<rparr>"

text \<open>
  A handle on a file that holds the header \<open>h\<close> and the records \<open>rs\<close> followed by
  \<open>extra\<close> stray bytes, as \<open>mail_index_open_file\<close> leaves it before the first lock:
  nothing mapped, the mapping marked dirty, the identity taken from the header.
\<close>

definition opened_index :: "MailIndexHeader \<Rightarrow> MailIndexRecord list \<Rightarrow> nat \<Rightarrow> MailIndex" where
  "opened_index h rs extra =
     \<lparr>header = h, records = rs,
      file_length = sizeof_MailIndexHeader + length rs * sizeof_MailIndexRecord + extra,
      mmap_base = False, mmap_length = 0, hdr_ptr = HdrNull, dirty_mmap = True,
      lock_type = MAIL_LOCK_UNLOCK, handle_indexid = indexid h, set_flags = 0,
      set_cache_fields = 0, updating = False, inconsistent = False, has_error = False,
      last_lookup = None, last_lookup_seq = 0, hash = (\<lambda>u. 0), has_hash = True,
      modifylog = [], data_deleted_space = 0, data_resets = 0, clock = 0\<rparr>"

text \<open>A file shorter than a header: only its length matters.\<close>

definition short_index :: "nat \<Rightarrow> MailIndex" where
  "short_index n = (opened_index (mail_index_init_header 1) [] 0)\<lparr>file_length := n\<rparr>"

text \<open>
  The same handle holding a lock of type \<open>l\<close> with the file mapped (the stray bytes, if
  any, outside the mapping).
\<close>

definition locked_index ::
  "MailLockType \<Rightarrow> MailIndexHeader \<Rightarrow> MailIndexRecord list \<Rightarrow> nat \<Rightarrow> MailIndex" where
  "locked_index l h rs extra =
     (opened_index h rs extra)
       \<lparr>mmap_base := True,
        mmap_length := sizeof_MailIndexHeader + length rs * sizeof_MailIndexRecord,
        hdr_ptr := HdrMapped, dirty_mmap := False, lock_type := l\<rparr>"

text \<open>
  An environment in which every call succeeds and the virtual methods do nothing; a
  write that fails has written nothing, and stray bytes read as a zeroed record.
\<close>

definition env_ok :: env where
  "env_ok = \<lparr>sys = (\<lambda>n. Ok), written = (\<lambda>n. 0),
            stray_record = (\<lambda>i. \<lparr>uid = 0, msg_flags = 0, cached_fields = 0, data_size = 0\<rparr>),
            sync_hook = (\<lambda>idx. (True, idx)),
            rebuild_hook = (\<lambda>idx. (True, idx)), hash_rebuild_hook = (\<lambda>idx. (True, idx))\<rparr>"

text \<open>The same, except that the calls whose number is in \<open>bad\<close> fail.\<close>

definition env_failing :: "nat list \<Rightarrow> env" where
  "env_failing bad = env_ok\<lparr>sys := (\<lambda>n. if n \<in> set bad then Err else Ok)\<rparr>"

text \<open>A header with given \<open>next_uid\<close> and \<open>messages_count\<close>, no flags and no hole.\<close>

definition counted_header :: "uint \<Rightarrow> uint \<Rightarrow> MailIndexHeader" where
  "counted_header nu mc = (mail_index_init_header 1)\<lparr>flags := 0, next_uid := nu, messages_count := mc\<rparr>"

definition plain_record :: "uint \<Rightarrow> uint \<Rightarrow> MailIndexRecord" where
  "plain_record u f = \<lparr>uid = u, msg_flags = f, cached_fields = 0, data_size = 10\<rparr>"

text \<open>
  Two handles holding the exclusive lock: one on an index with a single message, one on
  an empty index whose \<open>next_uid\<close> is the largest \<open>unsigned int\<close>.
\<close>

definition sample_exclusive :: MailIndex where
  "sample_exclusive = locked_index MAIL_LOCK_EXCLUSIVE (counted_header 2 1) [plain_record 1 0] 0"

definition sample_ceiling :: MailIndex where
  "sample_ceiling = locked_index MAIL_LOCK_EXCLUSIVE (counted_header (- 1) 0) [] 0"

text \<open>
  A handle holding the exclusive lock on a file that ends in five stray bytes, which a
  refresh whose \<open>ftruncate\<close> has failed has left outside the mapping; and an
  environment in which a record slot that begins with such bytes reads as a record with
  the uid \<open>0xAAAAAAAA\<close>.
\<close>

definition sample_ragged :: MailIndex where
  "sample_ragged = locked_index MAIL_LOCK_EXCLUSIVE (counted_header 2 1) [plain_record 1 0] 5"

definition env_stray :: env where
  "env_stray = env_ok\<lparr>stray_record := (\<lambda>i. plain_record 2863311530 0)\<rparr>"

text \<open>An environment whose second call fails after seven bytes have been written.\<close>

definition env_partial_write :: env where
  "env_partial_write = (env_failing [1])\<lparr>written := (\<lambda>n. 7)\<rparr>"

text \<open>
  A handle holding the shared lock on an index with the messages 3, 7 and 20, whose hash
  knows message 7 only; and the same with a hash that knows none.
\<close>

definition sample_shared :: MailIndex where
  "sample_shared =
     (locked_index MAIL_LOCK_SHARED (counted_header 21 3)
        [plain_record 3 0, plain_record 7 0, plain_record 20 0] 0)
       \<lparr>hash := (\<lambda>u. 0)(7 := 88)\<rparr>"

definition sample_shared_unhashed :: MailIndex where
  "sample_shared_unhashed = sample_shared\<lparr>hash := (\<lambda>u. 0)\<rparr>"

text \<open>
  A handle holding the exclusive lock on an index of five slots, the second and the fourth
  of them tombstones, with the hole descriptor on the second slot.
\<close>

definition sample_holed :: MailIndex where
  "sample_holed =
     locked_index MAIL_LOCK_EXCLUSIVE
       ((counted_header 6 3)\<lparr>first_hole_position := 88, first_hole_records := 1\<rparr>)
       [plain_record 1 0, plain_record 0 0, plain_record 3 0, plain_record 0 0, plain_record 5 0] 0"

text \<open>
  A handle on an index that was rebuilt after the handle had recorded its identity: the
  header carries the new \<open>indexid\<close> 5, the handle the old one.  And the handle as a
  failed attempt to take the shared lock leaves it.
\<close>

definition sample_rebuilt :: MailIndex where
  "sample_rebuilt =
     (opened_index ((counted_header 2 1)\<lparr>indexid := 5\<rparr>) [plain_record 1 0] 0)
       \<lparr>handle_indexid := 1\<rparr>"

definition sample_inconsistent :: MailIndex where
  "sample_inconsistent =
     snd (projr (mail_index_set_lock (Suc (Suc (Suc 0))) env_ok sample_rebuilt MAIL_LOCK_SHARED))"




section \<open>Verified properties\<close>

subsection \<open>Flag-delta bookkeeping\<close>

text \<open>
  C4.  Every call of \<open>index_mark_flag_changes\<close> applies the one transition chosen by the
  priority order unseen\<rightarrow>seen, seen\<rightarrow>unseen, undeleted\<rightarrow>deleted, deleted\<rightarrow>undeleted
  (and leaves the header alone when none of the four is present).  A call that sets SEEN
  changes the seen counter only, whatever happens to DELETED in the same call.  In the
  seen\<rightarrow>unseen case the lowwater becomes the record's uid exactly when the seen count
  equals \<open>messages_count\<close> or the uid is below the lowwater, and the seen count that is
  compared is the one before the decrement.
\<close>

theorem index_mark_flag_changes_one_transition:
  "index_mark_flag_changes hdr u old new =
     (case chosen_transition old new of
        None \<Rightarrow> hdr
      | Some t \<Rightarrow> apply_transition hdr u t)
   \<and> (chosen_transition old new = Some UnseenToSeen \<longleftrightarrow> unseen_to_seen old new)
   \<and> (chosen_transition old new = Some SeenToUnseen \<longleftrightarrow>
        \<not> unseen_to_seen old new \<and> seen_to_unseen old new)
   \<and> (chosen_transition old new = Some UndeletedToDeleted \<longleftrightarrow>
        \<not> unseen_to_seen old new \<and> \<not> seen_to_unseen old new \<and> undeleted_to_deleted old new)
   \<and> (chosen_transition old new = Some DeletedToUndeleted \<longleftrightarrow>
        \<not> unseen_to_seen old new \<and> \<not> seen_to_unseen old new \<and>
        \<not> undeleted_to_deleted old new \<and> deleted_to_undeleted old new)
   \<and> (unseen_to_seen old new \<longrightarrow>
        index_mark_flag_changes hdr u old new =
          hdr\<lparr>seen_messages_count := seen_messages_count hdr + 1\<rparr>)
   \<and> (seen_to_unseen old new \<longrightarrow>
        first_unseen_uid_lowwater (index_mark_flag_changes hdr u old new) =
          (if seen_messages_count hdr = messages_count hdr \<or> u < first_unseen_uid_lowwater hdr
           then u else first_unseen_uid_lowwater hdr)
        \<and> seen_messages_count (index_mark_flag_changes hdr u old new) =
            seen_messages_count hdr - 1)"
  by (simp add: index_mark_flag_changes_def chosen_transition_def unseen_to_seen_def
      seen_to_unseen_def undeleted_to_deleted_def deleted_to_undeleted_def Let_def)

theorem index_mark_flag_changes_one_transition_witness:
  "unseen_to_seen 0 (MAIL_SEEN OR MAIL_DELETED) \<and> undeleted_to_deleted 0 (MAIL_SEEN OR MAIL_DELETED)
   \<and> index_mark_flag_changes
        \<lparr>indexid = 1, flags = 0, cache_fields = 0, next_uid = 4, messages_count = 3,
         seen_messages_count = 1, deleted_messages_count = 1, first_unseen_uid_lowwater = 1,
         first_deleted_uid_lowwater = 3, first_hole_position = 0, first_hole_records = 0,
         last_nonrecent_uid = 0\<rparr> 2 0 (MAIL_SEEN OR MAIL_DELETED) =
      \<lparr>indexid = 1, flags = 0, cache_fields = 0, next_uid = 4, messages_count = 3,
         seen_messages_count = 2, deleted_messages_count = 1, first_unseen_uid_lowwater = 1,
         first_deleted_uid_lowwater = 3, first_hole_position = 0, first_hole_records = 0,
         last_nonrecent_uid = 0\<rparr>
   \<and> seen_to_unseen MAIL_SEEN 0
   \<and> first_unseen_uid_lowwater (index_mark_flag_changes
        \<lparr>indexid = 1, flags = 0, cache_fields = 0, next_uid = 4, messages_count = 3,
         seen_messages_count = 3, deleted_messages_count = 0, first_unseen_uid_lowwater = 1,
         first_deleted_uid_lowwater = 0, first_hole_position = 0, first_hole_records = 0,
         last_nonrecent_uid = 0\<rparr> 2 MAIL_SEEN 0) = 2"
  using index_mark_flag_changes_one_transition
    [of "\<lparr>indexid = 1, flags = 0, cache_fields = 0, next_uid = 4, messages_count = 3,
         seen_messages_count = 1, deleted_messages_count = 1, first_unseen_uid_lowwater = 1,
         first_deleted_uid_lowwater = 3, first_hole_position = 0, first_hole_records = 0,
         last_nonrecent_uid = 0\<rparr>" 2 0 "MAIL_SEEN OR MAIL_DELETED"]
    index_mark_flag_changes_one_transition
    [of "\<lparr>indexid = 1, flags = 0, cache_fields = 0, next_uid = 4, messages_count = 3,
         seen_messages_count = 3, deleted_messages_count = 0, first_unseen_uid_lowwater = 1,
         first_deleted_uid_lowwater = 0, first_hole_position = 0, first_hole_records = 0,
         last_nonrecent_uid = 0\<rparr>" 2 MAIL_SEEN 0]
  by (simp add: unseen_to_seen_def undeleted_to_deleted_def seen_to_unseen_def
      MAIL_SEEN_def MAIL_DELETED_def)

subsection \<open>Refreshing the mapping\<close>

lemma valid_length_arith:
  fixes L h r :: nat
  assumes "h \<le> L" "0 < r" "(L - h) mod r \<noteq> 0"
  shows "L - (L - h) mod r = h + ((L - h) div r) * r"
    and "L - (L - h) mod r < L"
    and "L < L - (L - h) mod r + r"
proof -
  have a: "(L - h) mod r \<le> L - h" by simp
  have b: "(L - h) - (L - h) mod r = ((L - h) div r) * r"
    by (simp add: minus_mod_eq_div_mult)
  show "L - (L - h) mod r = h + ((L - h) div r) * r"
    using assms(1) a b by linarith
  show "L - (L - h) mod r < L" using assms a by linarith
  have "(L - h) mod r < r" using assms(2) by simp
  then show "L < L - (L - h) mod r + r" using a assms(1) by linarith
qed

lemma mmap_update_short:
  assumes "dirty_mmap idx" "sys e (clock idx) = Ok" "file_length idx < sizeof_MailIndexHeader"
  shows "mmap_update e idx =
     (False, index_set_error (INDEX_MARK_CORRUPTED
        ((if mmap_base idx then munmap_base idx else idx)
           \<lparr>clock := clock idx + 1, mmap_base := True, mmap_length := file_length idx\<rparr>)))"
  using assms
  by (simp add: mmap_update_def syscall_def munmap_base_def Let_def)

lemma mmap_update_ragged:
  assumes "dirty_mmap idx" "sys e (clock idx) = Ok" "sizeof_MailIndexHeader \<le> file_length idx"
    "(file_length idx - sizeof_MailIndexHeader) mod sizeof_MailIndexRecord \<noteq> 0"
  shows "fst (mmap_update e idx)"
    and "mmap_length (snd (mmap_update e idx)) =
         file_length idx - (file_length idx - sizeof_MailIndexHeader) mod sizeof_MailIndexRecord"
    and "sys e (clock idx + 1) = Ok \<Longrightarrow> file_length (snd (mmap_update e idx)) =
         file_length idx - (file_length idx - sizeof_MailIndexHeader) mod sizeof_MailIndexRecord"
    and "sys e (clock idx + 1) \<noteq> Ok \<Longrightarrow>
         file_length (snd (mmap_update e idx)) = file_length idx"
    and "clock (snd (mmap_update e idx)) = clock idx + 2"
    and "has_error (snd (mmap_update e idx)) = has_error idx"
  using assms
  by (simp_all add: mmap_update_def syscall_def munmap_base_def Let_def ftruncate_def
      split: prod.splits)

text \<open>
  C7 (as amended).  A refresh that maps the file anew (the mapping is dirty and \<open>mmap\<close>
  succeeds): if the file is shorter than a header, the refresh fails and the handle is
  marked corrupted, REBUILD being set in its pending flags; if the length exceeds the
  header by something that is not a whole number of records, the mapping ends at the
  largest length \<open>header + k * record\<close> below the file's length, \<open>ftruncate\<close> to that
  length is called as the second system call of the refresh, and the refresh succeeds
  without an error recorded whatever that call returns: the file has the valid length if
  the \<open>ftruncate\<close> succeeded, and the length it had if not.
\<close>

theorem mmap_update_short_or_ragged:
  assumes "dirty_mmap idx" and "sys e (clock idx) = Ok"
  shows "(file_length idx < sizeof_MailIndexHeader \<longrightarrow>
           \<not> fst (mmap_update e idx) \<and>
           set_flags (snd (mmap_update e idx)) AND MAIL_INDEX_FLAG_REBUILD = MAIL_INDEX_FLAG_REBUILD)
    \<and> (sizeof_MailIndexHeader \<le> file_length idx \<and>
         (file_length idx - sizeof_MailIndexHeader) mod sizeof_MailIndexRecord \<noteq> 0 \<longrightarrow>
           fst (mmap_update e idx) \<and>
           mmap_length (snd (mmap_update e idx)) =
             sizeof_MailIndexHeader +
             ((file_length idx - sizeof_MailIndexHeader) div sizeof_MailIndexRecord) *
               sizeof_MailIndexRecord \<and>
           mmap_length (snd (mmap_update e idx)) < file_length idx \<and>
           file_length idx < mmap_length (snd (mmap_update e idx)) + sizeof_MailIndexRecord \<and>
           clock (snd (mmap_update e idx)) = clock idx + 2 \<and>
           has_error (snd (mmap_update e idx)) = has_error idx \<and>
           (sys e (clock idx + 1) = Ok \<longrightarrow>
              file_length (snd (mmap_update e idx)) = mmap_length (snd (mmap_update e idx))) \<and>
           (sys e (clock idx + 1) \<noteq> Ok \<longrightarrow>
              file_length (snd (mmap_update e idx)) = file_length idx))"
proof (intro conjI impI)
  assume "file_length idx < sizeof_MailIndexHeader"
  from mmap_update_short [OF assms this]
  show "\<not> fst (mmap_update e idx)"
    and "set_flags (snd (mmap_update e idx)) AND MAIL_INDEX_FLAG_REBUILD = MAIL_INDEX_FLAG_REBUILD"
    by (simp_all add: index_set_error_def INDEX_MARK_CORRUPTED_def munmap_base_def)
next
  assume h: "sizeof_MailIndexHeader \<le> file_length idx \<and>
         (file_length idx - sizeof_MailIndexHeader) mod sizeof_MailIndexRecord \<noteq> 0"
  have pos: "0 < sizeof_MailIndexRecord" by (simp add: sizeof_MailIndexRecord_def)
  note r = mmap_update_ragged [OF assms conjunct1 [OF h] conjunct2 [OF h]]
  note a = valid_length_arith [OF conjunct1 [OF h] pos conjunct2 [OF h]]
  show "fst (mmap_update e idx)" by (rule r(1))
  show "mmap_length (snd (mmap_update e idx)) =
             sizeof_MailIndexHeader +
             ((file_length idx - sizeof_MailIndexHeader) div sizeof_MailIndexRecord) *
               sizeof_MailIndexRecord"
    using r(2) a(1) by simp
  show "mmap_length (snd (mmap_update e idx)) < file_length idx" using r(2) a(2) by simp
  show "file_length idx < mmap_length (snd (mmap_update e idx)) + sizeof_MailIndexRecord"
    using r(2) a(3) by simp
  show "clock (snd (mmap_update e idx)) = clock idx + 2" by (rule r(5))
  show "has_error (snd (mmap_update e idx)) = has_error idx" by (rule r(6))
  show "file_length (snd (mmap_update e idx)) = mmap_length (snd (mmap_update e idx))"
    if "sys e (clock idx + 1) = Ok" using r(3) [OF that] r(2) by simp
  show "file_length (snd (mmap_update e idx)) = file_length idx"
    if "sys e (clock idx + 1) \<noteq> Ok" using r(4) [OF that] by simp
qed

theorem mmap_update_short_or_ragged_witness:
  "dirty_mmap (short_index 10) \<and> sys env_ok (clock (short_index 10)) = Ok
   \<and> file_length (short_index 10) < sizeof_MailIndexHeader
   \<and> \<not> fst (mmap_update env_ok (short_index 10))
   \<and> set_flags (snd (mmap_update env_ok (short_index 10))) AND MAIL_INDEX_FLAG_REBUILD =
        MAIL_INDEX_FLAG_REBUILD
   \<and> dirty_mmap (opened_index (mail_index_init_header 1) [] 5)
   \<and> sizeof_MailIndexHeader \<le> file_length (opened_index (mail_index_init_header 1) [] 5)
   \<and> (file_length (opened_index (mail_index_init_header 1) [] 5) - sizeof_MailIndexHeader)
        mod sizeof_MailIndexRecord \<noteq> 0
   \<and> sys env_ok (clock (opened_index (mail_index_init_header 1) [] 5) + 1) = Ok
   \<and> fst (mmap_update env_ok (opened_index (mail_index_init_header 1) [] 5))
   \<and> mmap_length (snd (mmap_update env_ok (opened_index (mail_index_init_header 1) [] 5))) =
        sizeof_MailIndexHeader
   \<and> file_length (snd (mmap_update env_ok (opened_index (mail_index_init_header 1) [] 5))) =
        sizeof_MailIndexHeader
   \<and> sys (env_failing [1]) (clock (opened_index (mail_index_init_header 1) [] 5)) = Ok
   \<and> sys (env_failing [1]) (clock (opened_index (mail_index_init_header 1) [] 5) + 1) \<noteq> Ok
   \<and> fst (mmap_update (env_failing [1]) (opened_index (mail_index_init_header 1) [] 5))
   \<and> mmap_length (snd (mmap_update (env_failing [1])
                              (opened_index (mail_index_init_header 1) [] 5))) =
        sizeof_MailIndexHeader
   \<and> file_length (snd (mmap_update (env_failing [1])
                              (opened_index (mail_index_init_header 1) [] 5))) =
        sizeof_MailIndexHeader + 5"
  using mmap_update_short_or_ragged [of "short_index 10" env_ok]
    mmap_update_short_or_ragged [of "opened_index (mail_index_init_header 1) [] 5" env_ok]
    mmap_update_short_or_ragged [of "opened_index (mail_index_init_header 1) [] 5"
       "env_failing [1]"]
  by (simp add: short_index_def opened_index_def env_ok_def env_failing_def
      sizeof_MailIndexHeader_def sizeof_MailIndexRecord_def)

text \<open>
  A file of a header and five stray bytes, with an \<open>ftruncate\<close> that fails: the refresh
  returns success and records no error, the mapping ends at the header, and the file
  still has its five stray bytes, so it has not the valid length \<open>header + 0 * record\<close>.
\<close>

theorem mmap_update_truncate_fails_counterexample:
  "fst (mmap_update (env_failing [1]) (opened_index (mail_index_init_header 1) [] 5))
   \<and> \<not> has_error (snd (mmap_update (env_failing [1])
                               (opened_index (mail_index_init_header 1) [] 5)))
   \<and> mmap_length (snd (mmap_update (env_failing [1])
                              (opened_index (mail_index_init_header 1) [] 5))) = 64
   \<and> file_length (snd (mmap_update (env_failing [1])
                              (opened_index (mail_index_init_header 1) [] 5))) = 69
   \<and> sizeof_MailIndexHeader = 64
   \<and> (\<nexists>k. file_length (snd (mmap_update (env_failing [1])
                                   (opened_index (mail_index_init_header 1) [] 5))) =
             sizeof_MailIndexHeader + k * sizeof_MailIndexRecord)"
proof -
  have "(69::nat) \<noteq> 64 + k * 24" for k by presburger
  then show ?thesis
    by (simp add: mmap_update_def syscall_def munmap_base_def Let_def ftruncate_def
        opened_index_def env_ok_def env_failing_def sizeof_MailIndexHeader_def
        sizeof_MailIndexRecord_def)
qed

subsection \<open>Appending\<close>

lemmas sample_defs =
  locked_index_def opened_index_def short_index_def env_ok_def env_failing_def
  counted_header_def mail_index_init_header_def plain_record_def
  sizeof_MailIndexHeader_def sizeof_MailIndexRecord_def
  sample_exclusive_def sample_ceiling_def

lemmas append_defs =
  mail_index_append_def syscall_def Let_def write_record_def mmap_update_def munmap_base_def
  mail_hash_update_def index_set_error_def ftruncate_def INDEX_MARK_CORRUPTED_def
  index_mark_flag_changes_def MAIL_SEEN_def MAIL_DELETED_def

lemma mmap_update_keeps:
  "header (snd (mmap_update e idx)) = header idx"
  "hash (snd (mmap_update e idx)) = hash idx"
  "lock_type (snd (mmap_update e idx)) = lock_type idx"
  "has_hash (snd (mmap_update e idx)) = has_hash idx"
  by (simp_all add: mmap_update_def syscall_def munmap_base_def Let_def ftruncate_def
      index_set_error_def INDEX_MARK_CORRUPTED_def split: prod.splits)

lemma mmap_update_records_aligned:
  "file_length idx = sizeof_MailIndexHeader + length (records idx) * sizeof_MailIndexRecord \<Longrightarrow>
   records (snd (mmap_update e idx)) = records idx \<and>
   file_length (snd (mmap_update e idx)) = file_length idx"
  by (simp add: mmap_update_def syscall_def munmap_base_def Let_def ftruncate_def
      index_set_error_def INDEX_MARK_CORRUPTED_def split: prod.splits)

lemma mail_index_append_written:
  assumes "lock_type idx = MAIL_LOCK_EXCLUSIVE" "hdr_ptr idx = HdrMapped"
    "sys e (clock idx) = Ok" "sys e (clock idx + 1) = Ok"
  shows "mail_index_append e idx r =
     Inr (fst (mmap_update e (appended e idx r)), r\<lparr>uid := next_uid (header idx)\<rparr>,
          (if fst (mmap_update e (appended e idx r)) then Some (file_length idx) else None),
          snd (mmap_update e (appended e idx r)))"
proof -
  have "mail_index_append e idx r =
     (case mmap_update e (appended e idx r) of
        (map_ok, idx8) \<Rightarrow>
          if \<not> map_ok then Inr (False, r\<lparr>uid := next_uid (header idx)\<rparr>, None, idx8)
          else Inr (True, r\<lparr>uid := next_uid (header idx)\<rparr>, Some (file_length idx), idx8))"
    using assms
    by (simp add: mail_index_append_def Let_def syscall_def write_record_def
      mail_hash_update_def appended_def)
  then show ?thesis by (simp split: prod.splits)
qed

lemma mail_index_append_seek_fails:
  assumes "lock_type idx = MAIL_LOCK_EXCLUSIVE" "hdr_ptr idx = HdrMapped"
    "sys e (clock idx) \<noteq> Ok"
  shows "mail_index_append e idx r =
     Inr (False, r\<lparr>uid := next_uid (header idx)\<rparr>, None,
          idx\<lparr>header := (header idx)\<lparr>next_uid := next_uid (header idx) + 1\<rparr>,
              clock := clock idx + 1, has_error := True\<rparr>)"
  using assms
  by (simp add: mail_index_append_def Let_def syscall_def index_set_error_def)

lemma mail_index_append_write_fails:
  assumes "lock_type idx = MAIL_LOCK_EXCLUSIVE" "hdr_ptr idx = HdrMapped"
    "sys e (clock idx) = Ok" "sys e (clock idx + 1) \<noteq> Ok"
  shows "mail_index_append e idx r =
     Inr (False, r\<lparr>uid := next_uid (header idx)\<rparr>, None,
          idx\<lparr>header := (header idx)\<lparr>next_uid := next_uid (header idx) + 1\<rparr>,
              clock := clock idx + 2,
              file_length := file_length idx + written e (clock idx + 1) mod sizeof_MailIndexRecord,
              records := records idx @
                 map (stray_record e)
                   [length (records idx) ..<
                    (file_length idx + written e (clock idx + 1) mod sizeof_MailIndexRecord
                       - sizeof_MailIndexHeader) div sizeof_MailIndexRecord],
              has_error := True\<rparr>)"
  using assms
  by (simp add: mail_index_append_def Let_def syscall_def index_set_error_def write_record_def)

lemma mail_index_append_returns:
  assumes "mail_index_append e idx r = Inr res"
  shows "lock_type idx = MAIL_LOCK_EXCLUSIVE \<and> hdr_ptr idx = HdrMapped"
  using assms by (simp add: mail_index_append_def split: if_splits)


lemma index_mark_flag_changes_keeps:
  "next_uid (index_mark_flag_changes h u old new) = next_uid h"
  "messages_count (index_mark_flag_changes h u old new) = messages_count h"
  by (simp_all add: index_mark_flag_changes_def Let_def)

lemma mail_index_append_success:
  assumes "mail_index_append e idx r = Inr (True, r', p, idx')"
  shows "fst (mmap_update e (appended e idx r))"
    and "idx' = snd (mmap_update e (appended e idx r))"
    and "r' = r\<lparr>uid := next_uid (header idx)\<rparr>"
    and "p = Some (file_length idx)"
proof -
  note l = mail_index_append_returns [OF assms]
  have s1: "sys e (clock idx) = Ok"
    using mail_index_append_seek_fails [OF conjunct1 [OF l] conjunct2 [OF l], of e r] assms
    by auto
  have s2: "sys e (clock idx + 1) = Ok"
    using mail_index_append_write_fails [OF conjunct1 [OF l] conjunct2 [OF l] s1, of r] assms
    by auto
  note w = mail_index_append_written [OF conjunct1 [OF l] conjunct2 [OF l] s1 s2, of r]
  show "fst (mmap_update e (appended e idx r))" using w assms by simp
  show "idx' = snd (mmap_update e (appended e idx r))" using w assms by simp
  show "r' = r\<lparr>uid := next_uid (header idx)\<rparr>" using w assms by simp
  show "p = Some (file_length idx)" using w assms by (simp split: if_splits)
qed

lemma word_less_succ:
  fixes a :: uint
  assumes "a \<noteq> - 1"
  shows "a < a + 1"
  using assms by (meson inc_less_eq_triv_imp not_le)

text \<open>
  C3 (as amended).  A successful append gives the record the \<open>next_uid\<close> the header had
  before the call, adds one to \<open>next_uid\<close> and to \<open>messages_count\<close>, and applies the
  flag-delta bookkeeping for the transition from no flags to the record's flags.  Unless
  \<open>next_uid\<close> was the largest \<open>unsigned int\<close>, \<open>next_uid\<close> has strictly grown; and
  if moreover the file consisted of the header and of whole records only, and \<open>next_uid\<close>
  exceeded every uid of the record array before, it does so afterwards, the array now
  ending with the new record.
\<close>

theorem mail_index_append_assigns_next_uid:
  assumes "mail_index_append e idx r = Inr (True, r', p, idx')"
  shows "lock_type idx = MAIL_LOCK_EXCLUSIVE
    \<and> uid r' = next_uid (header idx)
    \<and> next_uid (header idx') = next_uid (header idx) + 1
    \<and> messages_count (header idx') = messages_count (header idx) + 1
    \<and> header idx' =
         index_mark_flag_changes
           ((header idx)\<lparr>next_uid := next_uid (header idx) + 1,
                         messages_count := messages_count (header idx) + 1\<rparr>)
           (uid r') 0 (msg_flags r')
    \<and> (next_uid (header idx) \<noteq> - 1 \<longrightarrow>
          next_uid (header idx) < next_uid (header idx')
          \<and> ((\<forall>x \<in> set (records idx). uid x < next_uid (header idx))
               \<and> file_length idx =
                   sizeof_MailIndexHeader + length (records idx) * sizeof_MailIndexRecord
             \<longrightarrow> records idx' = records idx @ [r']
                 \<and> (\<forall>x \<in> set (records idx'). uid x < next_uid (header idx'))))"
proof -
  note s = mail_index_append_success [OF assms]
  have h: "header idx' = header (appended e idx r)"
    using s(2) by (simp add: mmap_update_keeps)
  have uid: "uid r' = next_uid (header idx)" and fl: "msg_flags r' = msg_flags r"
    using s(3) by simp_all
  have nu: "next_uid (header idx') = next_uid (header idx) + 1"
    using h by (simp add: appended_def index_mark_flag_changes_keeps)
  have mc: "messages_count (header idx') = messages_count (header idx) + 1"
    using h by (simp add: appended_def index_mark_flag_changes_keeps)
  have hd: "header idx' =
         index_mark_flag_changes
           ((header idx)\<lparr>next_uid := next_uid (header idx) + 1,
                         messages_count := messages_count (header idx) + 1\<rparr>)
           (uid r') 0 (msg_flags r')"
    using h uid fl by (simp add: appended_def)
  have mono: "next_uid (header idx) < next_uid (header idx')"
    if "next_uid (header idx) \<noteq> - 1"
    using word_less_succ [OF that] nu by simp
  have recs: "records idx' = records idx @ [r']"
    if "file_length idx = sizeof_MailIndexHeader + length (records idx) * sizeof_MailIndexRecord"
  proof -
    have "file_length (appended e idx r) =
       sizeof_MailIndexHeader + length (records (appended e idx r)) * sizeof_MailIndexRecord"
      using that by (simp add: appended_def)
    from mmap_update_records_aligned [OF this, of e]
    show ?thesis using s(2) s(3) that by (simp add: appended_def)
  qed
  have bound: "\<forall>x \<in> set (records idx'). uid x < next_uid (header idx')"
    if "next_uid (header idx) \<noteq> - 1" "\<forall>x \<in> set (records idx). uid x < next_uid (header idx)"
      "file_length idx = sizeof_MailIndexHeader + length (records idx) * sizeof_MailIndexRecord"
    using recs [OF that(3)] mono [OF that(1)] that(2) uid by auto
  show ?thesis
    using mail_index_append_returns [OF assms] uid nu mc hd mono recs bound by blast
qed

theorem mail_index_append_assigns_next_uid_witness:
  "mail_index_append env_ok sample_exclusive (plain_record 0 MAIL_SEEN) =
     Inr (True, plain_record 2 MAIL_SEEN, Some 88,
          snd (snd (snd (projr (mail_index_append env_ok sample_exclusive
                                  (plain_record 0 MAIL_SEEN))))))
   \<and> next_uid (header sample_exclusive) \<noteq> - 1
   \<and> records sample_exclusive = [plain_record 1 0]
   \<and> uid (plain_record 1 0) < next_uid (header sample_exclusive)
   \<and> file_length sample_exclusive =
        sizeof_MailIndexHeader + length (records sample_exclusive) * sizeof_MailIndexRecord
   \<and> next_uid (header (snd (snd (snd (projr (mail_index_append env_ok sample_exclusive
                                  (plain_record 0 MAIL_SEEN))))))) = 3
   \<and> records (snd (snd (snd (projr (mail_index_append env_ok sample_exclusive
                                  (plain_record 0 MAIL_SEEN)))))) =
        [plain_record 1 0, plain_record 2 MAIL_SEEN]"
proof -
  let ?res = "mail_index_append env_ok sample_exclusive (plain_record 0 MAIL_SEEN)"
  let ?idx' = "snd (snd (snd (projr ?res)))"
  have ev: "?res = Inr (True, plain_record 2 MAIL_SEEN, Some 88, ?idx')"
    by (simp add: append_defs sample_defs)
  have pre: "next_uid (header sample_exclusive) \<noteq> - 1"
    "\<forall>x \<in> set (records sample_exclusive). uid x < next_uid (header sample_exclusive)"
    "file_length sample_exclusive =
        sizeof_MailIndexHeader + length (records sample_exclusive) * sizeof_MailIndexRecord"
    by (simp_all add: sample_defs)
  have v: "next_uid (header sample_exclusive) = 2"
    "records sample_exclusive = [plain_record 1 0]"
    by (simp_all add: sample_defs)
  note t = mail_index_append_assigns_next_uid [OF ev]
  have "next_uid (header ?idx') = next_uid (header sample_exclusive) + 1"
    using t by blast
  then have nu: "next_uid (header ?idx') = 3" using v(1) by simp
  have "records ?idx' = records sample_exclusive @ [plain_record 2 MAIL_SEEN]"
    using t pre by blast
  then have rs: "records ?idx' = [plain_record 1 0, plain_record 2 MAIL_SEEN]"
    using v(2) by simp
  have u: "uid (plain_record 1 0) < next_uid (header sample_exclusive)"
    by (simp add: sample_defs)
  show ?thesis
    by (intro conjI) (rule ev pre(1,3) v(2) u nu rs)+
qed

text \<open>
  At the ceiling the append still succeeds, the record gets the uid \<open>2^32 - 1\<close>, and
  \<open>next_uid\<close> wraps to 0: it has not grown and does not exceed the uid just assigned.
  And on a file that ends in five stray bytes the append succeeds with \<open>next_uid\<close> going
  from 2 to 3, but the record is written behind the stray bytes: the refresh maps one more
  record slot, which begins with the stray bytes and reads as a record whose uid is not
  below \<open>next_uid\<close>.
\<close>

theorem mail_index_append_uid_bound_counterexample:
  "(case mail_index_append env_ok sample_ceiling (plain_record 0 0) of
      Inl err \<Rightarrow> False
    | Inr (ok, r', p, idx') \<Rightarrow>
        ok \<and> uid r' = 4294967295 \<and> next_uid (header sample_ceiling) = 4294967295
        \<and> next_uid (header idx') = 0
        \<and> \<not> next_uid (header sample_ceiling) < next_uid (header idx')
        \<and> \<not> (\<forall>x \<in> set (records idx'). uid x < next_uid (header idx')))
   \<and> (case mail_index_append env_stray sample_ragged (plain_record 0 0) of
      Inl err \<Rightarrow> False
    | Inr (ok, r', p, idx') \<Rightarrow>
        ok \<and> uid r' = 2 \<and> next_uid (header sample_ragged) = 2
        \<and> records sample_ragged = [plain_record 1 0]
        \<and> uid (plain_record 1 0) < next_uid (header sample_ragged)
        \<and> file_length sample_ragged = 93
        \<and> next_uid (header idx') = 3
        \<and> map uid (records idx') = [1, 2863311530]
        \<and> file_length idx' = 112
        \<and> \<not> (\<forall>x \<in> set (records idx'). uid x < next_uid (header idx')))"
  by (simp add: append_defs sample_defs sample_ragged_def env_stray_def upt_conv_Cons)

text \<open>
  C10.  An append whose seek or whose write fails returns failure; the caller's record
  carries the uid taken from \<open>next_uid\<close>, and the handle differs from the one before the
  call only in \<open>next_uid\<close>, which is one higher, in the error message, in the count of
  system calls made and, after a failed write, in the bytes that write has left at the end
  of the file: \<open>messages_count\<close>, the hash and the mapping are as they were.
\<close>

theorem mail_index_append_failure_consumes_uid:
  assumes "lock_type idx = MAIL_LOCK_EXCLUSIVE" and "hdr_ptr idx = HdrMapped"
    and "sys e (clock idx) \<noteq> Ok \<or> sys e (clock idx + 1) \<noteq> Ok"
  shows "mail_index_append e idx r =
     Inr (False, r\<lparr>uid := next_uid (header idx)\<rparr>, None,
          (if sys e (clock idx) \<noteq> Ok then
             idx\<lparr>header := (header idx)\<lparr>next_uid := next_uid (header idx) + 1\<rparr>,
                 clock := clock idx + 1, has_error := True\<rparr>
           else
             idx\<lparr>header := (header idx)\<lparr>next_uid := next_uid (header idx) + 1\<rparr>,
                 clock := clock idx + 2,
                 file_length :=
                   file_length idx + written e (clock idx + 1) mod sizeof_MailIndexRecord,
                 records := records idx @
                   map (stray_record e)
                     [length (records idx) ..<
                      (file_length idx + written e (clock idx + 1) mod sizeof_MailIndexRecord
                         - sizeof_MailIndexHeader) div sizeof_MailIndexRecord],
                 has_error := True\<rparr>))"
proof (cases "sys e (clock idx) = Ok")
  case True
  with assms(3) have "sys e (clock idx + 1) \<noteq> Ok" by simp
  from mail_index_append_write_fails [OF assms(1,2) True this] True
  show ?thesis by simp
next
  case False
  from mail_index_append_seek_fails [OF assms(1,2) False] False
  show ?thesis by simp
qed

theorem mail_index_append_failure_consumes_uid_witness:
  "lock_type sample_exclusive = MAIL_LOCK_EXCLUSIVE \<and> hdr_ptr sample_exclusive = HdrMapped
   \<and> sys (env_failing [0]) (clock sample_exclusive) \<noteq> Ok
   \<and> sys (env_failing [1]) (clock sample_exclusive) = Ok
   \<and> sys (env_failing [1]) (clock sample_exclusive + 1) \<noteq> Ok
   \<and> mail_index_append (env_failing [0]) sample_exclusive (plain_record 0 0) =
       Inr (False, plain_record 2 0, None,
            sample_exclusive\<lparr>header := counted_header 3 1, clock := 1, has_error := True\<rparr>)
   \<and> mail_index_append (env_failing [1]) sample_exclusive (plain_record 0 0) =
       Inr (False, plain_record 2 0, None,
            sample_exclusive\<lparr>header := counted_header 3 1, clock := 2, has_error := True\<rparr>)
   \<and> sys env_partial_write (clock sample_exclusive) = Ok
   \<and> sys env_partial_write (clock sample_exclusive + 1) \<noteq> Ok
   \<and> file_length sample_exclusive = 88
   \<and> mail_index_append env_partial_write sample_exclusive (plain_record 0 0) =
       Inr (False, plain_record 2 0, None,
            sample_exclusive\<lparr>header := counted_header 3 1, clock := 2, file_length := 95,
                             has_error := True\<rparr>)"
  using mail_index_append_failure_consumes_uid [of sample_exclusive "env_failing [0]" "plain_record 0 0"]
    mail_index_append_failure_consumes_uid [of sample_exclusive "env_failing [1]" "plain_record 0 0"]
    mail_index_append_failure_consumes_uid [of sample_exclusive env_partial_write "plain_record 0 0"]
  by (simp add: sample_defs env_partial_write_def)

subsection \<open>Looking up a UID range\<close>

lemma unat_succ:
  fixes u :: uint
  assumes "u \<noteq> - 1"
  shows "unat (u + 1) = Suc (unat u)"
  using assms by (metis add.commute add_neg_numeral_special(8) add_right_cancel unatSuc)

lemma below_ceiling:
  fixes u l :: uint
  assumes "u \<le> l" "l \<noteq> - 1"
  shows "u \<noteq> - 1"
  using assms word_order.extremum_uniqueI by blast

lemma uid_range_Cons:
  assumes "u \<le> l" "l \<noteq> - 1"
  shows "uid_range u l = u # uid_range (u + 1) l"
proof -
  have s: "unat (u + 1) = Suc (unat u)"
    by (rule unat_succ [OF below_ceiling [OF assms]])
  have "unat u < Suc (unat l)" using assms(1) by (simp add: word_le_nat_alt)
  then have "[unat u ..< Suc (unat l)] = unat u # [Suc (unat u) ..< Suc (unat l)]"
    by (rule upt_conv_Cons)
  then have "uid_range u l = word_of_nat (unat u) # map word_of_nat [unat (u + 1) ..< Suc (unat l)]"
    unfolding uid_range_def s by (simp only: list.map)
  then show ?thesis by (simp add: uid_range_def)
qed

lemma uid_range_Nil: "\<not> u \<le> l \<Longrightarrow> uid_range u l = []"
  by (simp add: uid_range_def word_le_nat_alt)

lemma probe_hash_first_hit:
  assumes "l \<noteq> - 1"
  shows "probe_hash h u l = Some (first_hit h (uid_range u l))"
proof (induction "Suc (unat l) - unat u" arbitrary: u)
  case 0
  then have "\<not> u \<le> l" by (simp add: word_le_nat_alt)
  then show ?case
    by (subst probe_hash.simps) (simp add: uid_range_Nil first_hit_def)
next
  case (Suc n)
  show ?case
  proof (cases "u \<le> l")
    case False
    then show ?thesis
      by (subst probe_hash.simps) (simp add: uid_range_Nil first_hit_def)
  next
    case True
    have "unat (u + 1) = Suc (unat u)"
      by (rule unat_succ [OF below_ceiling [OF True assms]])
    with Suc(2) have "n = Suc (unat l) - unat (u + 1)" by simp
    from Suc(1) [OF this] have ih: "probe_hash h (u + 1) l = Some (first_hit h (uid_range (u + 1) l))" .
    show ?thesis
      by (subst probe_hash.simps) (simp add: True ih uid_range_Cons [OF True assms] first_hit_def)
  qed
qed


lemma scan_records_first_live:
  assumes "first_uid \<le> last_uid"
  shows "scan_records rs (length rs) pos first_uid last_uid =
     Inr (case first_live (\<lambda>u. first_uid \<le> u) rs pos of
            None \<Rightarrow> None
          | Some (p, r) \<Rightarrow> if uid r \<le> last_uid then Some p else None)"
  using assms
  by (induction rs arbitrary: pos) (auto simp: not_le)

lemma last_try_uid_eq_last:
  "last_try_uid first_uid last_uid = last_uid \<longleftrightarrow> last_uid - first_uid < 10"
proof (cases "last_uid - first_uid < 10")
  case True
  then show ?thesis by (simp add: last_try_uid_def)
next
  case False
  have "first_uid + 4 \<noteq> last_uid"
  proof
    assume "first_uid + 4 = last_uid"
    then have "last_uid - first_uid = 4" by (simp add: algebra_simps)
    with False show False by simp
  qed
  with False show ?thesis by (simp add: last_try_uid_def)
qed

lemma lookup_uid_range_refreshed:
  assumes "lock_type idx \<noteq> MAIL_LOCK_UNLOCK" "0 < first_uid" "0 < last_uid"
    "first_uid \<le> last_uid" "mmap_update e idx = (True, idx1)" "has_hash idx1"
    "mmap_base idx1" "mapped_records idx1 = length (records idx1)"
    "last_try_uid first_uid last_uid \<noteq> - 1"
  shows "mail_index_lookup_uid_range e idx first_uid last_uid =
          Some (Inr
              ((case first_hit (hash idx1) (uid_range first_uid (last_try_uid first_uid last_uid)) of
                  Some pos \<Rightarrow> Some pos
                | None \<Rightarrow>
                    if last_uid - first_uid < 10 then None
                    else linear_scan (records idx1) first_uid last_uid),
               idx1))"
proof -
  have probe: "probe_hash (hash idx1) first_uid (last_try_uid first_uid last_uid) =
      Some (first_hit (hash idx1) (uid_range first_uid (last_try_uid first_uid last_uid)))"
    by (rule probe_hash_first_hit [OF assms(9)])
  have scan: "scan_records (records idx1) (mapped_records idx1) sizeof_MailIndexHeader
                 first_uid last_uid = Inr (linear_scan (records idx1) first_uid last_uid)"
    using scan_records_first_live [OF assms(4), of "records idx1" sizeof_MailIndexHeader] assms(8)
    by (simp add: linear_scan_def)
  have nlt: "\<not> last_uid < first_uid" using assms(4) by (simp add: not_less)
  show ?thesis
    unfolding mail_index_lookup_uid_range_def
    using assms(1,2,3,6,7) nlt
    by (simp add: assms(5) probe scan last_try_uid_eq_last split: option.splits)
qed

text \<open>
  C1 (as amended).  Under a lock and with both UIDs positive: an empty range
  (\<open>first_uid > last_uid\<close>) gives the empty result.  Otherwise, once the mapping is
  refreshed, the hash is probed for the UIDs from \<open>first_uid\<close> through \<open>last_uid\<close>
  when \<open>last_uid - first_uid < 10\<close> and through \<open>first_uid + 4\<close> when not, and the
  offset of the first hit is returned.  When all probes miss, the result is empty if
  \<open>last_uid - first_uid < 10\<close>; else the record array is scanned up to the first live
  record whose uid is not below \<open>first_uid\<close>, which is returned unless its uid is above
  \<open>last_uid\<close>.  (The last probed UID is taken to be below \<open>2^32 - 1\<close>, and the mapping
  to cover exactly the records of the file.)
\<close>

theorem mail_index_lookup_uid_range_result:
  assumes "lock_type idx \<noteq> MAIL_LOCK_UNLOCK" and "0 < first_uid" and "0 < last_uid"
  shows "(last_uid < first_uid \<longrightarrow>
            mail_index_lookup_uid_range e idx first_uid last_uid = Some (Inr (None, idx)))
    \<and> (first_uid \<le> last_uid
        \<and> (if last_uid - first_uid < 10 then last_uid else first_uid + 4) \<noteq> - 1
        \<and> fst (mmap_update e idx) \<and> has_hash idx
        \<and> mmap_base (snd (mmap_update e idx))
        \<and> mapped_records (snd (mmap_update e idx)) = length (records (snd (mmap_update e idx)))
       \<longrightarrow>
          mail_index_lookup_uid_range e idx first_uid last_uid =
            Some (Inr
              ((case first_hit (hash idx)
                       (uid_range first_uid
                          (if last_uid - first_uid < 10 then last_uid else first_uid + 4)) of
                  Some pos \<Rightarrow> Some pos
                | None \<Rightarrow>
                    if last_uid - first_uid < 10 then None
                    else linear_scan (records (snd (mmap_update e idx))) first_uid last_uid),
               snd (mmap_update e idx))))"
proof (intro conjI impI)
  assume "last_uid < first_uid"
  then show "mail_index_lookup_uid_range e idx first_uid last_uid = Some (Inr (None, idx))"
    using assms by (simp add: mail_index_lookup_uid_range_def)
next
  assume h: "first_uid \<le> last_uid
        \<and> (if last_uid - first_uid < 10 then last_uid else first_uid + 4) \<noteq> - 1
        \<and> fst (mmap_update e idx) \<and> has_hash idx
        \<and> mmap_base (snd (mmap_update e idx))
        \<and> mapped_records (snd (mmap_update e idx)) = length (records (snd (mmap_update e idx)))"
  define idx1 where "idx1 = snd (mmap_update e idx)"
  have "fst (mmap_update e idx) = True" using h by simp
  then have mu: "mmap_update e idx = (True, idx1)"
    unfolding idx1_def by (metis prod.collapse)
  have lt: "last_try_uid first_uid last_uid =
      (if last_uid - first_uid < 10 then last_uid else first_uid + 4)"
    by (simp add: last_try_uid_def)
  have k: "has_hash idx1" "hash idx1 = hash idx"
    using h by (simp_all add: idx1_def mmap_update_keeps)
  have c: "mmap_base idx1" "mapped_records idx1 = length (records idx1)"
    "last_try_uid first_uid last_uid \<noteq> - 1" "first_uid \<le> last_uid"
    using h by (simp_all add: idx1_def lt)
  from lookup_uid_range_refreshed [OF assms c(4) mu k(1) c(1,2,3)]
  show "mail_index_lookup_uid_range e idx first_uid last_uid =
            Some (Inr
              ((case first_hit (hash idx)
                       (uid_range first_uid
                          (if last_uid - first_uid < 10 then last_uid else first_uid + 4)) of
                  Some pos \<Rightarrow> Some pos
                | None \<Rightarrow>
                    if last_uid - first_uid < 10 then None
                    else linear_scan (records (snd (mmap_update e idx))) first_uid last_uid),
               snd (mmap_update e idx)))"
    unfolding lt k(2) unfolding idx1_def .
qed

lemmas lookup_sample_defs = sample_defs sample_shared_def sample_shared_unhashed_def

lemma mmap_update_sample_shared:
  "mmap_update env_ok sample_shared = (True, sample_shared)"
  "mmap_update env_ok sample_shared_unhashed = (True, sample_shared_unhashed)"
  by (simp_all add: lookup_sample_defs mmap_update_def)

theorem mail_index_lookup_uid_range_result_witness:
  "lock_type sample_shared_unhashed \<noteq> MAIL_LOCK_UNLOCK
   \<and> (0::uint) < 1 \<and> (0::uint) < 30 \<and> (1::uint) \<le> 30
   \<and> (if (30::uint) - 1 < 10 then (30::uint) else 1 + 4) \<noteq> - 1
   \<and> fst (mmap_update env_ok sample_shared_unhashed) \<and> has_hash sample_shared_unhashed
   \<and> mmap_base (snd (mmap_update env_ok sample_shared_unhashed))
   \<and> mapped_records (snd (mmap_update env_ok sample_shared_unhashed)) =
        length (records (snd (mmap_update env_ok sample_shared_unhashed)))
   \<and> mail_index_lookup_uid_range env_ok sample_shared_unhashed 1 30 =
        Some (Inr (Some 64, sample_shared_unhashed))
   \<and> (8::uint) < 9
   \<and> mail_index_lookup_uid_range env_ok sample_shared_unhashed 9 8 =
        Some (Inr (None, sample_shared_unhashed))"
proof -
  have pre: "lock_type sample_shared_unhashed \<noteq> MAIL_LOCK_UNLOCK"
    "(0::uint) < 1" "(0::uint) < 30" "(0::uint) < 9" "(0::uint) < 8"
    by (simp_all add: lookup_sample_defs)
  have c: "(1::uint) \<le> 30" "(if (30::uint) - 1 < 10 then (30::uint) else 1 + 4) \<noteq> - 1"
    "fst (mmap_update env_ok sample_shared_unhashed)" "has_hash sample_shared_unhashed"
    "mmap_base (snd (mmap_update env_ok sample_shared_unhashed))"
    "mapped_records (snd (mmap_update env_ok sample_shared_unhashed)) =
        length (records (snd (mmap_update env_ok sample_shared_unhashed)))"
    by (simp_all add: mmap_update_sample_shared)
       (simp_all add: lookup_sample_defs mapped_records_def)
  have v: "first_hit (hash sample_shared_unhashed) (uid_range 1 5) = None"
    "linear_scan (records sample_shared_unhashed) 1 30 = Some 64"
    by (simp_all add: lookup_sample_defs first_hit_def uid_range_def upt_conv_Cons
        linear_scan_def)
  have "mail_index_lookup_uid_range env_ok sample_shared_unhashed 1 30 =
          Some (Inr
              ((case first_hit (hash sample_shared_unhashed)
                       (uid_range 1 (if (30::uint) - 1 < 10 then 30 else 1 + 4)) of
                  Some pos \<Rightarrow> Some pos
                | None \<Rightarrow>
                    if (30::uint) - 1 < 10 then None
                    else linear_scan (records (snd (mmap_update env_ok sample_shared_unhashed)))
                           1 30),
               snd (mmap_update env_ok sample_shared_unhashed)))"
    using mail_index_lookup_uid_range_result [OF pre(1,2,3), of env_ok] c by blast
  then have r1: "mail_index_lookup_uid_range env_ok sample_shared_unhashed 1 30 =
        Some (Inr (Some 64, sample_shared_unhashed))"
    by (simp add: v mmap_update_sample_shared)
  have r2: "mail_index_lookup_uid_range env_ok sample_shared_unhashed 9 8 =
        Some (Inr (None, sample_shared_unhashed))"
    using mail_index_lookup_uid_range_result [OF pre(1,4,5), of env_ok] by simp
  have lt: "(8::uint) < 9" by simp
  show ?thesis
    by (intro conjI) (rule pre c r1 r2 lt)+
qed

text \<open>
  With UIDs 1 to 8 asked for, the hash is probed beyond UID 5: message 7, which the hash
  knows, is returned although message 3 precedes it in the array; and when the hash knows
  no message at all, nothing is returned, no scan taking place.  The lookup as specified
  returns message 3, at offset 64, both times.  And with the UIDs \<open>2^32 - 2\<close> to
  \<open>2^32 - 1\<close> asked for, the last UID to probe is the largest \<open>unsigned int\<close>: the
  loop counter wraps to 0 and the probing goes on to message 7, which is returned although
  its uid is outside the range; the lookup as specified returns nothing.
\<close>

theorem mail_index_lookup_uid_range_counterexample:
  "map_option (map_sum id fst) (mail_index_lookup_uid_range env_ok sample_shared 1 8) =
     Some (Inr (Some 88))
   \<and> spec_lookup_uid_range (hash sample_shared) (records sample_shared) 1 8 = Some 64
   \<and> map_option (map_sum id fst)
        (mail_index_lookup_uid_range env_ok sample_shared_unhashed 1 8) = Some (Inr None)
   \<and> spec_lookup_uid_range (hash sample_shared_unhashed) (records sample_shared_unhashed) 1 8 =
        Some 64
   \<and> last_try_uid 4294967294 4294967295 = - 1
   \<and> map_option (map_sum id fst)
        (mail_index_lookup_uid_range env_ok sample_shared 4294967294 4294967295) =
        Some (Inr (Some 88))
   \<and> map uid (records sample_shared) = [3, 7, 20]
   \<and> spec_lookup_uid_range (hash sample_shared) (records sample_shared)
        4294967294 4294967295 = None"
proof -
  have d: "last_try_uid 4294967294 4294967295 = - 1"
    "map uid (records sample_shared) = [3, 7, 20]"
    by (simp_all add: lookup_sample_defs last_try_uid_def)
  have e: "map_option (map_sum id fst)
        (mail_index_lookup_uid_range env_ok sample_shared 4294967294 4294967295) =
        Some (Inr (Some 88))"
    by (simp add: mail_index_lookup_uid_range_def mmap_update_sample_shared last_try_uid_def)
       (simp add: lookup_sample_defs probe_hash.simps)
  have f: "spec_lookup_uid_range (hash sample_shared) (records sample_shared)
        4294967294 4294967295 = None"
    by (simp add: spec_lookup_uid_range_def lookup_sample_defs first_hit_def uid_range_def
        upt_conv_Cons)
  have a: "map_option (map_sum id fst) (mail_index_lookup_uid_range env_ok sample_shared 1 8) =
     Some (Inr (Some 88))"
    by (simp add: mail_index_lookup_uid_range_def mmap_update_sample_shared last_try_uid_def)
       (simp add: lookup_sample_defs probe_hash.simps)
  have b: "map_option (map_sum id fst)
        (mail_index_lookup_uid_range env_ok sample_shared_unhashed 1 8) = Some (Inr None)"
    by (simp add: mail_index_lookup_uid_range_def mmap_update_sample_shared last_try_uid_def)
       (simp add: lookup_sample_defs probe_hash.simps)
  have c: "spec_lookup_uid_range (hash sample_shared) (records sample_shared) 1 8 = Some 64"
    "spec_lookup_uid_range (hash sample_shared_unhashed) (records sample_shared_unhashed) 1 8 =
        Some 64"
    by (simp_all add: spec_lookup_uid_range_def lookup_sample_defs first_hit_def uid_range_def
        upt_conv_Cons)
  show ?thesis
    by (intro conjI) (rule a b c d e f)+
qed

subsection \<open>Expunging\<close>

lemmas expunge_sample_defs = sample_defs sample_holed_def

lemmas expunge_defs =
  mail_index_expunge_def expunge_logged_def mail_modifylog_add_expunge_def syscall_def
  tombstone_def mail_hash_update_def Let_def expunge_update_first_hole_def
  update_first_hole_records_def records_from_def INDEX_FILE_POSITION_def
  expunge_update_counts_def index_mark_flag_changes_def mail_index_truncate_def ftruncate_def
  mail_index_data_reset_def mail_index_data_add_deleted_space_def
  MAIL_SEEN_def MAIL_DELETED_def MAIL_INDEX_FLAG_COMPRESS_def

lemma sizeof_MailIndexRecord_pos: "0 < sizeof_MailIndexRecord"
  by (simp add: sizeof_MailIndexRecord_def)

lemma grow_hole_takeWhile:
  assumes "end_pos = pos + length rs * sizeof_MailIndexRecord"
  shows "grow_hole rs pos end_pos n =
           Inr (n + word_of_nat (length (takeWhile (\<lambda>r. uid r = 0) rs)))"
  using assms
proof (induction rs arbitrary: pos n)
  case Nil
  then show ?case by simp
next
  case (Cons r rs)
  have ne: "pos \<noteq> end_pos"
    using Cons.prems sizeof_MailIndexRecord_pos by simp
  have e: "end_pos = (pos + sizeof_MailIndexRecord) + length rs * sizeof_MailIndexRecord"
    using Cons.prems by simp
  show ?case
    using ne Cons.IH [OF e, of "n + 1"] by (simp add: add.assoc)
qed

lemma records_from_position:
  "records_from idx (INDEX_FILE_POSITION j) = Some (drop j (records idx))"
  using sizeof_MailIndexRecord_pos
  by (simp add: records_from_def INDEX_FILE_POSITION_def)

lemma update_first_hole_records_covered:
  assumes "hdr_ptr idx = HdrMapped"
    and "mmap_length idx = sizeof_MailIndexHeader + length (records idx) * sizeof_MailIndexRecord"
    and "first_hole_position (header idx) +
           unat (first_hole_records (header idx)) * sizeof_MailIndexRecord = INDEX_FILE_POSITION j"
    and "j \<le> length (records idx)"
  shows "update_first_hole_records idx =
     Inr (idx\<lparr>header := (header idx)\<lparr>first_hole_records :=
            first_hole_records (header idx) +
            word_of_nat (length (takeWhile (\<lambda>r. uid r = 0) (drop j (records idx))))\<rparr>\<rparr>)"
proof -
  have e: "mmap_length idx =
      INDEX_FILE_POSITION j + length (drop j (records idx)) * sizeof_MailIndexRecord"
    using assms(2,4) by (simp add: INDEX_FILE_POSITION_def algebra_simps flip: add_mult_distrib)
  note g = grow_hole_takeWhile [OF e, of "first_hole_records (header idx)"]
  show ?thesis
  proof (cases "INDEX_FILE_POSITION j = mmap_length idx")
    case True
    then have "length (drop j (records idx)) * sizeof_MailIndexRecord = 0" using e by simp
    then have "drop j (records idx) = []" using sizeof_MailIndexRecord_pos by simp
    then show ?thesis
      using assms(1,3) True by (simp add: update_first_hole_records_def)
  next
    case False
    then show ?thesis
      using assms(1,3) g
      by (simp add: update_first_hole_records_def records_from_position)
  qed
qed


lemma before_hole_iff:
  fixes a b p :: nat
  shows "(b \<le> a \<and> a - b = p) = (p + b = a)"
  by auto

lemma expunge_update_first_hole_spec:
  assumes "hdr_ptr j = HdrMapped"
    and "mmap_length j = sizeof_MailIndexHeader + length (records j) * sizeof_MailIndexRecord"
    and "i < length (records j)"
    and "first_hole_records (header j) \<noteq> - 1"
  shows "expunge_update_first_hole j (INDEX_FILE_POSITION i) =
           Inr (with_first_hole j (spec_first_hole (header j) (records j) i))"
proof -
  let ?hole = "first_hole_position (header j)"
  let ?n = "first_hole_records (header j)"
  let ?pos = "INDEX_FILE_POSITION i"
  consider (none) "?hole = 0"
    | (before) "?hole \<noteq> 0" "?pos + sizeof_MailIndexRecord = ?hole"
    | (after) "?hole \<noteq> 0" "?pos + sizeof_MailIndexRecord \<noteq> ?hole"
        "?hole + unat ?n * sizeof_MailIndexRecord = ?pos"
    | (apart) "?hole \<noteq> 0" "?pos + sizeof_MailIndexRecord \<noteq> ?hole"
        "?hole + unat ?n * sizeof_MailIndexRecord \<noteq> ?pos"
    by blast
  then show ?thesis
  proof cases
    case none
    then show ?thesis
      by (simp add: expunge_update_first_hole_def spec_first_hole_def with_first_hole_def Let_def)
  next
    case before
    then show ?thesis
      by (auto simp add: expunge_update_first_hole_def spec_first_hole_def with_first_hole_def
          Let_def before_hole_iff)
  next
    case after
    let ?j1 = "j\<lparr>header := (header j)\<lparr>first_hole_records := ?n + 1\<rparr>\<rparr>"
    have step: "expunge_update_first_hole j ?pos = update_first_hole_records ?j1"
      using after by (simp add: expunge_update_first_hole_def Let_def before_hole_iff)
    have u: "unat (?n + 1) = Suc (unat ?n)"
      using assms(4) by (metis add.commute add_neg_numeral_special(8) add_right_cancel unatSuc)
    have p: "first_hole_position (header ?j1) +
           unat (first_hole_records (header ?j1)) * sizeof_MailIndexRecord =
           INDEX_FILE_POSITION (Suc i)"
      using after(3) u by (simp add: INDEX_FILE_POSITION_def)
    have "update_first_hole_records ?j1 =
       Inr (?j1\<lparr>header := (header ?j1)\<lparr>first_hole_records :=
            first_hole_records (header ?j1) +
            word_of_nat (length (takeWhile (\<lambda>r. uid r = 0) (drop (Suc i) (records ?j1))))\<rparr>\<rparr>)"
      by (rule update_first_hole_records_covered [OF _ _ p]) (use assms in simp_all)
    then show ?thesis
      using after step
      by (simp add: spec_first_hole_def with_first_hole_def Let_def tombstones_after_def)
  next
    case apart
    show ?thesis
      using apart
      by (auto simp add: expunge_update_first_hole_def spec_first_hole_def with_first_hole_def
          Let_def min_def before_hole_iff)
  qed
qed

lemma tombstone_fields:
  "header (tombstone j i seq) = header j"
  "records (tombstone j i seq) = (records j)[i := (records j ! i)\<lparr>uid := 0\<rparr>]"
  "mmap_length (tombstone j i seq) = mmap_length j"
  "hdr_ptr (tombstone j i seq) = hdr_ptr j"
  "set_flags (tombstone j i seq) = set_flags j"
  "file_length (tombstone j i seq) = file_length j"
  "data_deleted_space (tombstone j i seq) = data_deleted_space j"
  "data_resets (tombstone j i seq) = data_resets j"
  "clock (tombstone j i seq) = clock j"
  by (simp_all add: tombstone_def mail_hash_update_def Let_def)





lemma expunge_logged_fields:
  "header (snd (expunge_logged e idx i seq ext)) = header idx"
  "records (snd (expunge_logged e idx i seq ext)) = records idx"
  "mmap_length (snd (expunge_logged e idx i seq ext)) = mmap_length idx"
  "hdr_ptr (snd (expunge_logged e idx i seq ext)) = hdr_ptr idx"
  "set_flags (snd (expunge_logged e idx i seq ext)) = set_flags idx"
  "file_length (snd (expunge_logged e idx i seq ext)) = file_length idx"
  "data_deleted_space (snd (expunge_logged e idx i seq ext)) = data_deleted_space idx"
  "data_resets (snd (expunge_logged e idx i seq ext)) = data_resets idx"
  "has_hash (snd (expunge_logged e idx i seq ext)) = has_hash idx"
  by (simp_all add: expunge_logged_def mail_modifylog_add_expunge_def syscall_def)

lemma mail_index_expunge_success:
  assumes "mail_index_expunge e idx i seq ext = Inr (True, idx')"
  obtains idx3 where
    "lock_type idx = MAIL_LOCK_EXCLUSIVE" "i < length (records idx)" "uid (records idx ! i) \<noteq> 0"
    "hdr_ptr idx = HdrMapped"
    "expunge_update_first_hole (tombstone (snd (expunge_logged e idx i seq ext)) i seq)
       (INDEX_FILE_POSITION i) = Inr idx3"
    "idx' = expunge_update_counts e idx3 i"
proof -
  obtain logged idx1 where l: "expunge_logged e idx i seq ext = (logged, idx1)"
    by (cases "expunge_logged e idx i seq ext")
  then have idx1: "idx1 = snd (expunge_logged e idx i seq ext)" by simp
  have pre: "lock_type idx = MAIL_LOCK_EXCLUSIVE" "i < length (records idx)"
    "uid (records idx ! i) \<noteq> 0"
    using assms by (simp_all add: mail_index_expunge_def split: if_splits)
  have rest: "logged" "hdr_ptr (tombstone idx1 i seq) = HdrMapped"
    "(case expunge_update_first_hole (tombstone idx1 i seq) (INDEX_FILE_POSITION i) of
                 Inl err \<Rightarrow> Inl err
               | Inr idx3 \<Rightarrow> Inr (True, expunge_update_counts e idx3 i)) = Inr (True, idx')"
    using assms pre by (simp_all add: mail_index_expunge_def l Let_def split: if_splits)
  from rest(3) obtain idx3 where
    s: "expunge_update_first_hole (tombstone idx1 i seq) (INDEX_FILE_POSITION i) = Inr idx3"
    "idx' = expunge_update_counts e idx3 i"
    by (auto split: sum.splits)
  have h: "hdr_ptr idx = HdrMapped"
    using rest(2) by (simp add: idx1 tombstone_fields expunge_logged_fields)
  show ?thesis
    using that [OF pre h] s by (simp add: idx1)
qed


lemma index_mark_flag_changes_keeps_hole:
  "first_hole_position (index_mark_flag_changes h u old new) = first_hole_position h"
  "first_hole_records (index_mark_flag_changes h u old new) = first_hole_records h"
  by (simp_all add: index_mark_flag_changes_def Let_def)

lemma word_pred_zero_iff:
  fixes c :: uint
  shows "c - 1 = 0 \<longleftrightarrow> c = 1"
  by auto

lemma expunge_update_counts_remaining:
  assumes "messages_count (header k) \<noteq> 1"
  shows "first_hole_position (header (expunge_update_counts e k i)) = first_hole_position (header k)"
    and "first_hole_records (header (expunge_update_counts e k i)) = first_hole_records (header k)"
    and "set_flags (expunge_update_counts e k i) = set_flags k"
    and "messages_count (header (expunge_update_counts e k i)) = messages_count (header k) - 1"
    and "file_length (expunge_update_counts e k i) = file_length k"
    and "records (expunge_update_counts e k i) = records k"
    and "data_resets (expunge_update_counts e k i) = data_resets k"
    and "data_deleted_space (expunge_update_counts e k i) =
           data_deleted_space k + unat (data_size (records k ! i))"
  using assms
  by (simp_all add: expunge_update_counts_def Let_def index_mark_flag_changes_keeps
      index_mark_flag_changes_keeps_hole word_pred_zero_iff mail_index_data_add_deleted_space_def)





lemma spec_first_hole_tombstoned:
  assumes "i < length rs"
  shows "spec_first_hole hdr (rs[i := x]) i = spec_first_hole hdr rs i"
proof -
  have "tombstones_after (rs[i := x]) i = tombstones_after rs i"
    by (simp add: tombstones_after_def)
  then show ?thesis by (simp add: spec_first_hole_def Let_def)
qed

text \<open>
  C2.  An expunge of a live record under the exclusive lock updates the hole descriptor
  as \<open>spec_first_hole\<close> says: with no hole, the record's offset and one record; the record
  directly before the hole, the hole starts one record earlier and has one record more;
  directly after it, the hole has one record more and those of the tombstones that
  follow; elsewhere COMPRESS is set (in the pending flags of the handle) and the earlier
  position is kept, with one record when the new hole is the earlier one.  That is the
  descriptor at return whenever a message is left in the index.  (The mapping covers the
  records of the file, and \<open>first_hole_records\<close> is not the largest \<open>unsigned int\<close>.)
\<close>

theorem mail_index_expunge_first_hole:
  assumes "mail_index_expunge e idx i seq ext = Inr (True, idx')"
    and "mmap_length idx = sizeof_MailIndexHeader + length (records idx) * sizeof_MailIndexRecord"
    and "first_hole_records (header idx) \<noteq> - 1"
  shows "lock_type idx = MAIL_LOCK_EXCLUSIVE \<and> uid (records idx ! i) \<noteq> 0
    \<and> expunge_update_first_hole (tombstone (snd (expunge_logged e idx i seq ext)) i seq)
          (INDEX_FILE_POSITION i) =
        Inr (with_first_hole (tombstone (snd (expunge_logged e idx i seq ext)) i seq)
               (spec_first_hole (header idx) (records idx) i))
    \<and> (messages_count (header idx) \<noteq> 1 \<longrightarrow>
          first_hole_position (header idx') = fst (spec_first_hole (header idx) (records idx) i)
        \<and> first_hole_records (header idx') =
            fst (snd (spec_first_hole (header idx) (records idx) i))
        \<and> set_flags idx' =
            (if snd (snd (spec_first_hole (header idx) (records idx) i))
             then set_flags idx OR MAIL_INDEX_FLAG_COMPRESS else set_flags idx))"
proof -
  let ?j = "tombstone (snd (expunge_logged e idx i seq ext)) i seq"
  let ?d = "spec_first_hole (header idx) (records idx) i"
  from mail_index_expunge_success [OF assms(1)] obtain idx3 where
    pre: "lock_type idx = MAIL_LOCK_EXCLUSIVE" "i < length (records idx)"
      "uid (records idx ! i) \<noteq> 0" "hdr_ptr idx = HdrMapped"
    and h: "expunge_update_first_hole ?j (INDEX_FILE_POSITION i) = Inr idx3"
    and r: "idx' = expunge_update_counts e idx3 i"
    by blast
  have j: "hdr_ptr ?j = HdrMapped"
    "mmap_length ?j = sizeof_MailIndexHeader + length (records ?j) * sizeof_MailIndexRecord"
    "i < length (records ?j)" "first_hole_records (header ?j) \<noteq> - 1"
    using pre assms(2,3) by (simp_all add: tombstone_fields expunge_logged_fields)
  have d: "spec_first_hole (header ?j) (records ?j) i = ?d"
    using pre(2) by (simp add: tombstone_fields expunge_logged_fields spec_first_hole_tombstoned)
  have step: "expunge_update_first_hole ?j (INDEX_FILE_POSITION i) = Inr (with_first_hole ?j ?d)"
    using expunge_update_first_hole_spec [OF j] d by simp
  have idx3: "idx3 = with_first_hole ?j ?d" using h step by simp
  obtain p n c where dd: "?d = (p, n, c)" by (cases ?d)
  have w: "first_hole_position (header idx3) = p" "first_hole_records (header idx3) = n"
    "set_flags idx3 = (if c then set_flags idx OR MAIL_INDEX_FLAG_COMPRESS else set_flags idx)"
    "messages_count (header idx3) = messages_count (header idx)"
    by (simp_all add: idx3 dd with_first_hole_def tombstone_fields expunge_logged_fields)
  have fin: "first_hole_position (header idx') = fst ?d
        \<and> first_hole_records (header idx') = fst (snd ?d)
        \<and> set_flags idx' =
            (if snd (snd ?d) then set_flags idx OR MAIL_INDEX_FLAG_COMPRESS else set_flags idx)"
    if c1: "messages_count (header idx) \<noteq> 1"
  proof -
    have "messages_count (header idx3) \<noteq> 1" using c1 w(4) by simp
    note z = expunge_update_counts_remaining [OF this, of e i]
    show ?thesis
      using z(1,2,3) w by (simp add: r dd)
  qed
  show ?thesis using pre(1,3) step fin by blast
qed

theorem mail_index_expunge_first_hole_witness:
  "mail_index_expunge env_ok sample_holed 2 2 False =
     Inr (True, snd (projr (mail_index_expunge env_ok sample_holed 2 2 False)))
   \<and> mmap_length sample_holed =
       sizeof_MailIndexHeader + length (records sample_holed) * sizeof_MailIndexRecord
   \<and> first_hole_records (header sample_holed) \<noteq> - 1
   \<and> messages_count (header sample_holed) \<noteq> 1
   \<and> first_hole_position (header (snd (projr (mail_index_expunge env_ok sample_holed 2 2 False)))) = 88
   \<and> first_hole_records (header (snd (projr (mail_index_expunge env_ok sample_holed 2 2 False)))) = 3
   \<and> set_flags (snd (projr (mail_index_expunge env_ok sample_holed 2 2 False))) = 0
   \<and> mail_index_expunge env_ok sample_holed 4 3 False =
     Inr (True, snd (projr (mail_index_expunge env_ok sample_holed 4 3 False)))
   \<and> first_hole_position (header (snd (projr (mail_index_expunge env_ok sample_holed 4 3 False)))) = 88
   \<and> first_hole_records (header (snd (projr (mail_index_expunge env_ok sample_holed 4 3 False)))) = 1
   \<and> set_flags (snd (projr (mail_index_expunge env_ok sample_holed 4 3 False))) =
       MAIL_INDEX_FLAG_COMPRESS"
proof -
  let ?A = "mail_index_expunge env_ok sample_holed 2 2 False"
  let ?B = "mail_index_expunge env_ok sample_holed 4 3 False"
  have evA: "?A = Inr (True, snd (projr ?A))"
    by (simp add: expunge_defs expunge_sample_defs)
  have evB: "?B = Inr (True, snd (projr ?B))"
    by (simp add: expunge_defs expunge_sample_defs)
  have pre: "mmap_length sample_holed =
       sizeof_MailIndexHeader + length (records sample_holed) * sizeof_MailIndexRecord"
    "first_hole_records (header sample_holed) \<noteq> - 1"
    "messages_count (header sample_holed) \<noteq> 1"
    by (simp_all add: expunge_sample_defs)
  have sp: "spec_first_hole (header sample_holed) (records sample_holed) 2 = (88, 3, False)"
    "spec_first_hole (header sample_holed) (records sample_holed) 4 = (88, 1, True)"
    "set_flags sample_holed = 0"
    by (simp_all add: spec_first_hole_def tombstones_after_def INDEX_FILE_POSITION_def
        expunge_sample_defs)
  have "first_hole_position (header (snd (projr ?A))) =
          fst (spec_first_hole (header sample_holed) (records sample_holed) 2)
        \<and> first_hole_records (header (snd (projr ?A))) =
            fst (snd (spec_first_hole (header sample_holed) (records sample_holed) 2))
        \<and> set_flags (snd (projr ?A)) =
            (if snd (snd (spec_first_hole (header sample_holed) (records sample_holed) 2))
             then set_flags sample_holed OR MAIL_INDEX_FLAG_COMPRESS else set_flags sample_holed)"
    using mail_index_expunge_first_hole [OF evA pre(1,2)] pre(3) by blast
  then have a: "first_hole_position (header (snd (projr ?A))) = 88"
    "first_hole_records (header (snd (projr ?A))) = 3"
    "set_flags (snd (projr ?A)) = 0"
    by (simp_all add: sp)
  have "first_hole_position (header (snd (projr ?B))) =
          fst (spec_first_hole (header sample_holed) (records sample_holed) 4)
        \<and> first_hole_records (header (snd (projr ?B))) =
            fst (snd (spec_first_hole (header sample_holed) (records sample_holed) 4))
        \<and> set_flags (snd (projr ?B)) =
            (if snd (snd (spec_first_hole (header sample_holed) (records sample_holed) 4))
             then set_flags sample_holed OR MAIL_INDEX_FLAG_COMPRESS else set_flags sample_holed)"
    using mail_index_expunge_first_hole [OF evB pre(1,2)] pre(3) by blast
  then have b: "first_hole_position (header (snd (projr ?B))) = 88"
    "first_hole_records (header (snd (projr ?B))) = 1"
    "set_flags (snd (projr ?B)) = MAIL_INDEX_FLAG_COMPRESS"
    by (simp_all add: sp)
  show ?thesis
    by (intro conjI) (rule evA evB pre a b)+
qed




subsection \<open>Locking\<close>

lemmas lock_defs =
  set_lock_acquire_def set_lock_fcntl_def set_lock_finish_def release_exclusive_def
  mail_index_update_header_changes_def mail_index_sync_file_def mail_index_fmsync_def
  mail_index_rebuild_all_def mmap_update_def munmap_base_def syscall_def index_set_error_def
  ftruncate_def INDEX_MARK_CORRUPTED_def Let_def sync_entered_def lock_mapped_def
  MAIL_INDEX_FLAG_FSCK_def MAIL_INDEX_FLAG_REBUILD_def

lemmas lock_sample_defs = sample_defs sample_rebuilt_def




lemma sample_rebuilt_set_lock:
  "mail_index_set_lock (Suc (Suc (Suc 0))) env_ok sample_rebuilt MAIL_LOCK_SHARED =
     Inr (False, sample_rebuilt\<lparr>clock := 2, lock_type := MAIL_LOCK_SHARED, mmap_base := True,
        mmap_length := 88, hdr_ptr := HdrMapped, dirty_mmap := False, has_error := True,
        inconsistent := True\<rparr>)"
  by (simp add: lock_defs lock_sample_defs)

lemma sample_inconsistent_eq:
  "sample_inconsistent =
     sample_rebuilt\<lparr>clock := 2, lock_type := MAIL_LOCK_SHARED, mmap_base := True,
        mmap_length := 88, hdr_ptr := HdrMapped, dirty_mmap := False, has_error := True,
        inconsistent := True\<rparr>"
  unfolding sample_inconsistent_def sample_rebuilt_set_lock by simp



text \<open>
  C9 (as amended).  A handle holding the shared lock that asks for the exclusive lock
  trips the assertion, unless the handle is inconsistent: then the call returns failure
  before the assertion is reached.  In neither case is the transition performed.
\<close>

theorem set_lock_shared_to_exclusive:
  assumes "lock_type idx = MAIL_LOCK_SHARED"
  shows "mail_index_set_lock (Suc n) e idx MAIL_LOCK_EXCLUSIVE =
           (if inconsistent idx then Inr (False, idx) else Inl AssertionFailed)"
  using assms by simp

theorem set_lock_shared_to_exclusive_witness:
  "lock_type sample_shared = MAIL_LOCK_SHARED
   \<and> mail_index_set_lock (Suc 0) env_ok sample_shared MAIL_LOCK_EXCLUSIVE = Inl AssertionFailed"
proof -
  have l: "lock_type sample_shared = MAIL_LOCK_SHARED"
    and i: "\<not> inconsistent sample_shared"
    by (simp_all add: lookup_sample_defs)
  from set_lock_shared_to_exclusive [OF l, of 0 env_ok] i
  have "mail_index_set_lock (Suc 0) env_ok sample_shared MAIL_LOCK_EXCLUSIVE = Inl AssertionFailed"
    by simp
  with l show ?thesis by simp
qed

text \<open>
  The handle that a failed attempt to take the shared lock on a rebuilt index has left
  inconsistent holds the shared lock; asked for the exclusive lock, it returns failure
  and no assertion trips.
\<close>

theorem set_lock_shared_to_exclusive_counterexample:
  "lock_type sample_inconsistent = MAIL_LOCK_SHARED
   \<and> mail_index_set_lock (Suc 0) env_ok sample_inconsistent MAIL_LOCK_EXCLUSIVE =
       Inr (False, sample_inconsistent)
   \<and> mail_index_set_lock (Suc 0) env_ok sample_inconsistent MAIL_LOCK_EXCLUSIVE \<noteq>
       Inl AssertionFailed"
  by (simp add: sample_inconsistent_eq)





























end
